theory Spec2Isabelle
  imports Main "HOL-Library.List_Lexorder"
begin

section \<open>Text\<close>

text \<open>
  A Python \<^verbatim>\<open>str\<close> is a sequence of Unicode code points, so a text is a list of
  natural numbers. \<open>str\<close> turns an ASCII literal into such a text.
\<close>

type_synonym pystr = "nat list"

definition str :: "string \<Rightarrow> pystr" where
  "str s = map of_char s"

text \<open>
  \<^verbatim>\<open>str.isspace\<close>, \<^verbatim>\<open>str.strip\<close> and the pattern \<^verbatim>\<open>\s\<close> share one set of
  white-space code points.
\<close>

definition py_isspace :: "nat \<Rightarrow> bool" where
  "py_isspace c \<longleftrightarrow>
     (9 \<le> c \<and> c \<le> 13) \<or> (28 \<le> c \<and> c \<le> 32) \<or> c = 133 \<or> c = 160 \<or> c = 5760 \<or>
     (8192 \<le> c \<and> c \<le> 8202) \<or> c = 8232 \<or> c = 8233 \<or> c = 8239 \<or> c = 8287 \<or> c = 12288"

definition py_strip :: "pystr \<Rightarrow> pystr" where
  "py_strip s = rev (dropWhile py_isspace (rev (dropWhile py_isspace s)))"

text \<open>The pattern \<^verbatim>\<open>[0-9]\<close>: the ten ASCII digits.\<close>

definition ascii_digit :: "nat \<Rightarrow> bool" where
  "ascii_digit c \<longleftrightarrow> 48 \<le> c \<and> c \<le> 57"

text \<open>
  The pattern \<^verbatim>\<open>\d\<close> on a \<^verbatim>\<open>str\<close> is the Unicode category Nd. Its members come in
  runs of ten, one run per script; \<open>decimal_zeros\<close> lists the digit zero of each run.
\<close>

definition decimal_zeros :: "nat list" where
  "decimal_zeros =
    [48, 1632, 1776, 1984, 2406, 2534, 2662, 2790, 2918, 3046, 3174, 3302, 3430, 3558,
     3664, 3792, 3872, 4160, 4240, 6112, 6160, 6470, 6608, 6784, 6800, 6992, 7088, 7232,
     7248, 42528, 43216, 43264, 43472, 43504, 43600, 44016, 65296, 66720, 68912, 69734,
     69872, 69942, 70096, 70384, 70736, 70864, 71248, 71360, 71472, 71904, 72016, 72784,
     73040, 73120, 92768, 92864, 93008, 120782, 120792, 120802, 120812, 120822, 123200,
     123632, 125264, 130032]"

definition py_isdecimal :: "nat \<Rightarrow> bool" where
  "py_isdecimal c \<longleftrightarrow> list_ex (\<lambda>z. z \<le> c \<and> c \<le> z + 9) decimal_zeros"

definition startswith :: "pystr \<Rightarrow> pystr \<Rightarrow> bool" where
  "startswith s p \<longleftrightarrow> take (length p) s = p"

definition lstrip_chars :: "pystr \<Rightarrow> pystr \<Rightarrow> pystr" where
  "lstrip_chars s cs = dropWhile (\<lambda>c. c \<in> set cs) s"

section \<open>Phone normalizer\<close>

definition clean_phone :: "pystr \<Rightarrow> pystr" where
  "clean_phone p = filter py_isdecimal p"

definition normalize_phone :: "pystr \<Rightarrow> pystr" where
  "normalize_phone phone =
     (let digits = clean_phone phone;
          digits = (if startswith digits (str ''0'') then str ''38'' @ digits else digits);
          digits = (if \<not> startswith digits (str ''380'')
                    then str ''380'' @ lstrip_chars digits (str ''380'') else digits)
      in str ''+'' @ digits)"

text \<open>A phone in canonical form: decimal digits that begin with the country code.\<close>

definition canonical :: "pystr \<Rightarrow> bool" where
  "canonical n \<longleftrightarrow> list_all py_isdecimal n \<and> startswith n (str ''380'')"

section \<open>Case conversion\<close>

text \<open>
  \<^verbatim>\<open>str.upper\<close> and \<^verbatim>\<open>str.lower\<close> are given for the ASCII letters, the Cyrillic
  letters U+0400 to U+045F, and the four further code points that a case-insensitive
  pattern lets stand for an ASCII letter (U+0130, U+0131, U+017F, U+212A). Every other
  code point is left as it is.
\<close>

definition upper_cp :: "nat \<Rightarrow> pystr" where
  "upper_cp c =
     (if 97 \<le> c \<and> c \<le> 122 then [c - 32]
      else if c = 305 then [73]
      else if c = 383 then [83]
      else if 1072 \<le> c \<and> c \<le> 1103 then [c - 32]
      else if 1104 \<le> c \<and> c \<le> 1119 then [c - 80]
      else [c])"

definition py_upper :: "pystr \<Rightarrow> pystr" where
  "py_upper s = concat (map upper_cp s)"

definition lower_cp :: "nat \<Rightarrow> pystr" where
  "lower_cp c =
     (if 65 \<le> c \<and> c \<le> 90 then [c + 32]
      else if c = 304 then [105, 775]
      else if c = 8490 then [107]
      else if 1040 \<le> c \<and> c \<le> 1071 then [c + 32]
      else if 1024 \<le> c \<and> c \<le> 1039 then [c + 80]
      else [c])"

definition py_lower :: "pystr \<Rightarrow> pystr" where
  "py_lower s = concat (map lower_cp s)"

section \<open>Data model and store\<close>

text \<open>Points in time and intervals are counted in microseconds, the store's resolution.\<close>

type_synonym time = int

definition seconds :: "int \<Rightarrow> time" where
  "seconds n = n * 1000000"

definition make_interval_mins :: "int \<Rightarrow> time" where
  "make_interval_mins m = seconds (60 * m)"

definition make_interval_days :: "int \<Rightarrow> time" where
  "make_interval_days d = seconds (86400 * d)"

record employee =
  telegram_id :: int
  emp_name :: pystr
  bitrix_id :: int

record category =
  code :: pystr
  cat_name :: pystr

record record_row =
  rec_id :: nat
  employee_telegram_id :: int
  category_code :: pystr
  phone :: pystr
  comment :: pystr
  timestamp :: time

text \<open>The three tables of a department, found by the department's table prefix.\<close>

record database =
  employees :: "pystr \<Rightarrow> employee list"
  categories :: "pystr \<Rightarrow> category list"
  records :: "pystr \<Rightarrow> record_row list"

text \<open>A message sent to the chat (\<^verbatim>\<open>reply_text\<close>), by its kind and the values it shows.\<close>

datatype reply =
    ClientNotInCrm
  | RecordSaved pystr pystr
  | StoreFailedTaskCreated
  | OperationCancelled
  | UnknownCategory pystr
  | DuplicatePrompt pystr
  | AskTelegramId
  | AskBitrixId
  | AskEmployeeName
  | InvalidTelegramId
  | InvalidBitrixId
  | EmployeeAdded int int pystr
  | EmployeeAddFailed
  | NoAccess
  | WrongChat

text \<open>A request that changes the CRM.\<close>

datatype crm_call =
    TaskAdd pystr pystr pystr int
  | TimelineComment pystr pystr pystr int
  | TaskComplete nat

text \<open>
  The process-wide state: the store, the two category cache dictionaries (keyed by
  department), and what has been sent to the chat and to the CRM so far.
\<close>

record world =
  db :: database
  categories_cache :: "pystr option \<rightharpoonup> category list"
  categories_cache_time :: "pystr option \<rightharpoonup> time"
  outbox :: "reply list"
  crm_calls :: "crm_call list"

definition SUPPORT_CHAT_ID :: int where
  "SUPPORT_CHAT_ID = - 1003053461710"

definition PRE_TRIAL_CHAT_ID :: int where
  "PRE_TRIAL_CHAT_ID = - 5070042846"

definition RESPONSIBLE_ID :: int where
  "RESPONSIBLE_ID = 596"

definition ADMIN_TELEGRAM_IDS :: "int list" where
  "ADMIN_TELEGRAM_IDS = [727013047, 458757059, 8183276948]"

definition get_department_by_chat_id :: "int \<Rightarrow> pystr option" where
  "get_department_by_chat_id chat =
     (if chat = SUPPORT_CHAT_ID then Some (str ''support'')
      else if chat = PRE_TRIAL_CHAT_ID then Some (str ''pre_trial'')
      else None)"

definition get_table_prefix :: "pystr option \<Rightarrow> pystr option" where
  "get_table_prefix department =
     (if department = Some (str ''support'') then Some (str ''support'')
      else if department = Some (str ''pre_trial'') then Some (str ''pre_trial'')
      else None)"

definition is_admin :: "int \<Rightarrow> bool" where
  "is_admin user_id \<longleftrightarrow> user_id \<in> set ADMIN_TELEGRAM_IDS"

section \<open>Store access: employees\<close>

definition get_employee_by_telegram_id :: "int \<Rightarrow> pystr option \<Rightarrow> world \<Rightarrow> employee option" where
  "get_employee_by_telegram_id tid department w =
     (case get_table_prefix department of
        None \<Rightarrow> None
      | Some prefix \<Rightarrow> find (\<lambda>e. telegram_id e = tid) (employees (db w) prefix))"

text \<open>\<^verbatim>\<open>INSERT ... ON CONFLICT (telegram_id) DO UPDATE\<close>: replace the row of that key, or add one.\<close>

fun upsert_employee :: "employee \<Rightarrow> employee list \<Rightarrow> employee list" where
  "upsert_employee e [] = [e]"
| "upsert_employee e (x # xs) =
     (if telegram_id x = telegram_id e
      then x\<lparr>emp_name := emp_name e, bitrix_id := bitrix_id e\<rparr> # xs
      else x # upsert_employee e xs)"

text \<open>
  A writing statement can fail in the store; the source catches that, rolls back and
  reports it. \<open>ok\<close> tells whether the statement and its commit go through.
\<close>

definition add_employee :: "bool \<Rightarrow> int \<Rightarrow> pystr \<Rightarrow> int \<Rightarrow> pystr option \<Rightarrow> world \<Rightarrow> bool \<times> world" where
  "add_employee ok tid name bid department w =
     (case get_table_prefix department of
        None \<Rightarrow> (False, w)
      | Some prefix \<Rightarrow>
          if ok then
            (True, w\<lparr>db := (db w)\<lparr>employees := (employees (db w))
               (prefix := upsert_employee \<lparr>telegram_id = tid, emp_name = name, bitrix_id = bid\<rparr>
                            (employees (db w) prefix))\<rparr>\<rparr>)
          else (False, w))"

section \<open>Category registry\<close>

definition get_category_by_code :: "pystr \<Rightarrow> pystr option \<Rightarrow> world \<Rightarrow> category option" where
  "get_category_by_code c department w =
     (case get_table_prefix department of
        None \<Rightarrow> None
      | Some prefix \<Rightarrow> find (\<lambda>x. code x = py_upper c) (categories (db w) prefix))"

text \<open>\<^verbatim>\<open>INSERT ... ON CONFLICT (code) DO UPDATE SET name\<close>.\<close>

fun upsert_category :: "category \<Rightarrow> category list \<Rightarrow> category list" where
  "upsert_category c [] = [c]"
| "upsert_category c (x # xs) =
     (if code x = code c then x\<lparr>cat_name := cat_name c\<rparr> # xs else x # upsert_category c xs)"

text \<open>Dropping the department's entry from both cache dictionaries.\<close>

definition invalidate :: "pystr option \<Rightarrow> world \<Rightarrow> world" where
  "invalidate department w =
     w\<lparr>categories_cache := (categories_cache w)(department := None),
       categories_cache_time := (categories_cache_time w)(department := None)\<rparr>"

definition add_category :: "bool \<Rightarrow> pystr \<Rightarrow> pystr \<Rightarrow> pystr option \<Rightarrow> world \<Rightarrow> bool \<times> world" where
  "add_category ok c name department w =
     (case get_table_prefix department of
        None \<Rightarrow> (False, w)
      | Some prefix \<Rightarrow>
          if ok then
            (True, invalidate department
               (w\<lparr>db := (db w)\<lparr>categories := (categories (db w))
                  (prefix := upsert_category \<lparr>code = py_upper c, cat_name = name\<rparr>
                               (categories (db w) prefix))\<rparr>\<rparr>))
          else (False, w))"

text \<open>The result of \<open>delete_category\<close> is whether a row was deleted (\<^verbatim>\<open>rowcount > 0\<close>).\<close>

definition delete_category :: "bool \<Rightarrow> pystr \<Rightarrow> pystr option \<Rightarrow> world \<Rightarrow> bool \<times> world" where
  "delete_category ok c department w =
     (case get_table_prefix department of
        None \<Rightarrow> (False, w)
      | Some prefix \<Rightarrow>
          if ok then
            (list_ex (\<lambda>x. code x = py_upper c) (categories (db w) prefix),
             invalidate department
               (w\<lparr>db := (db w)\<lparr>categories := (categories (db w))
                  (prefix := filter (\<lambda>x. code x \<noteq> py_upper c) (categories (db w) prefix))\<rparr>\<rparr>))
          else (False, w))"

text \<open>\<^verbatim>\<open>SELECT * FROM categories ORDER BY code\<close>, the codes compared by code point.\<close>

definition select_categories :: "pystr \<Rightarrow> world \<Rightarrow> category list" where
  "select_categories prefix w = sort_key code (categories (db w) prefix)"

text \<open>
  \<open>now\<close> is the reading of the clock during the call. The cached list is returned when
  both dictionaries hold the department and the entry is younger than sixty seconds.
\<close>

definition get_all_categories :: "time \<Rightarrow> pystr option \<Rightarrow> bool \<Rightarrow> world \<Rightarrow> category list \<times> world" where
  "get_all_categories now department use_cache w =
     (case get_table_prefix department of
        None \<Rightarrow> ([], w)
      | Some prefix \<Rightarrow>
          (case (use_cache, categories_cache w department, categories_cache_time w department) of
             (True, Some cached, Some t) \<Rightarrow>
               if now - t < seconds 60 then (cached, w)
               else (select_categories prefix w,
                     w\<lparr>categories_cache := (categories_cache w)(department \<mapsto> select_categories prefix w),
                       categories_cache_time := (categories_cache_time w)(department \<mapsto> now)\<rparr>)
           | (True, _, _) \<Rightarrow>
               (select_categories prefix w,
                w\<lparr>categories_cache := (categories_cache w)(department \<mapsto> select_categories prefix w),
                  categories_cache_time := (categories_cache_time w)(department \<mapsto> now)\<rparr>)
           | (False, _, _) \<Rightarrow> (select_categories prefix w, w)))"

section \<open>Store access: records\<close>

text \<open>
  Modelled from the spec: the declaration of the records table is not in the source. The
  store gives a new row the next serial \<open>id\<close> and the time of insertion as its
  \<open>timestamp\<close> (the record's \<open>created_at\<close>).
\<close>

definition next_id :: "record_row list \<Rightarrow> nat" where
  "next_id rows = Suc (fold max (map rec_id rows) 0)"

definition add_record ::
  "bool \<Rightarrow> time \<Rightarrow> int \<Rightarrow> pystr \<Rightarrow> pystr \<Rightarrow> pystr \<Rightarrow> pystr option \<Rightarrow> world \<Rightarrow> nat option \<times> world" where
  "add_record ok now tid c ph cm department w =
     (case get_table_prefix department of
        None \<Rightarrow> (None, w)
      | Some prefix \<Rightarrow>
          if ok then
            (Some (next_id (records (db w) prefix)),
             w\<lparr>db := (db w)\<lparr>records := (records (db w))
                (prefix := records (db w) prefix @
                   [\<lparr>rec_id = next_id (records (db w) prefix), employee_telegram_id = tid,
                     category_code = py_upper c, phone = ph, comment = cm, timestamp = now\<rparr>])\<rparr>\<rparr>)
          else (None, w))"

text \<open>The row filter of the duplicate query, \<open>now\<close> being the store's \<^verbatim>\<open>NOW()\<close>.\<close>

definition duplicate_of :: "time \<Rightarrow> int \<Rightarrow> pystr \<Rightarrow> pystr \<Rightarrow> int \<Rightarrow> record_row \<Rightarrow> bool" where
  "duplicate_of now tid c ph minutes r \<longleftrightarrow>
     employee_telegram_id r = tid \<and> category_code r = py_upper c \<and> phone r = ph \<and>
     timestamp r > now - make_interval_mins minutes"

definition check_duplicate_record ::
  "time \<Rightarrow> int \<Rightarrow> pystr \<Rightarrow> pystr \<Rightarrow> pystr option \<Rightarrow> int \<Rightarrow> world \<Rightarrow> bool" where
  "check_duplicate_record now tid c ph department minutes w =
     (case get_table_prefix department of
        None \<Rightarrow> False
      | Some prefix \<Rightarrow>
          length (filter (duplicate_of now tid c ph minutes) (records (db w) prefix)) > 0)"

section \<open>Grammar parser\<close>

text \<open>
  \<^verbatim>\<open>re.match\<close> is modelled by the list of all ways in which the pattern matches at the
  start of the text, in the order in which a backtracking matcher finds them: the
  alternatives of a group from left to right, a greedy repetition from its longest run
  to its shortest, an optional item first present and then absent. The match that
  \<^verbatim>\<open>re.match\<close> reports is the first of the list, and there is none when the list is
  empty. A way of matching an item is the pair of the text matched and the text left.
\<close>

definition re_greedy :: "(nat \<Rightarrow> bool) \<Rightarrow> nat \<Rightarrow> pystr \<Rightarrow> (pystr \<times> pystr) list" where
  "re_greedy p lo s =
     map (\<lambda>n. (take n s, drop n s)) (rev [lo ..< Suc (length (takeWhile p s))])"

definition re_literal :: "nat \<Rightarrow> pystr \<Rightarrow> (pystr \<times> pystr) list" where
  "re_literal c s = (case s of [] \<Rightarrow> [] | x # xs \<Rightarrow> if x = c then [([c], xs)] else [])"

definition re_optional :: "nat \<Rightarrow> pystr \<Rightarrow> (pystr \<times> pystr) list" where
  "re_optional c s = re_literal c s @ [([], s)]"

text \<open>Matching one item and then the rest of the pattern on the text left.\<close>

definition re_then :: "(pystr \<times> pystr) list \<Rightarrow> (pystr \<Rightarrow> pystr \<Rightarrow> 'a list) \<Rightarrow> 'a list" where
  "re_then ms f = List.bind ms (\<lambda>(a, r). f a r)"

text \<open>
  Under \<^verbatim>\<open>re.IGNORECASE\<close> an ASCII letter of the pattern matches its two cases and, for
  I, S and K, the further code points U+0130, U+0131, U+017F and U+212A; a digit matches
  itself.
\<close>

definition ci_extra :: "nat \<Rightarrow> nat list" where
  "ci_extra u = (if u = 73 then [304, 305] else if u = 83 then [383] else if u = 75 then [8490] else [])"

definition ci_class :: "nat \<Rightarrow> nat list" where
  "ci_class p =
     (if 65 \<le> p \<and> p \<le> 90 then [p, p + 32] @ ci_extra p
      else if 97 \<le> p \<and> p \<le> 122 then [p - 32, p] @ ci_extra (p - 32)
      else [p])"

definition ci_match :: "nat \<Rightarrow> nat \<Rightarrow> bool" where
  "ci_match p c \<longleftrightarrow> c \<in> set (ci_class p)"

definition re_literal_ci :: "pystr \<Rightarrow> pystr \<Rightarrow> (pystr \<times> pystr) list" where
  "re_literal_ci p s =
     (if length p \<le> length s \<and> list_all2 ci_match p (take (length p) s)
      then [(take (length p) s, drop (length p) s)] else [])"

text \<open>
  The pattern \<^verbatim>\<open>^(codes)\s+(\+?[0-9]+)\s*\|\s*(.+)\<close> with the flags \<^verbatim>\<open>IGNORECASE\<close> and
  \<^verbatim>\<open>DOTALL\<close>, the codes joined by \<^verbatim>\<open>|\<close>. Each code stands for itself in the pattern:
  this is the pattern's meaning for codes made of letters and digits, the only codes
  that \<open>add_category_code\<close> lets into the registry (two to ten capital letters and
  digits). The result of a match is its three groups.
\<close>

definition re_match_message :: "pystr list \<Rightarrow> pystr \<Rightarrow> (pystr \<times> pystr \<times> pystr) list" where
  "re_match_message codes t =
     List.bind codes (\<lambda>c.
     re_then (re_literal_ci c t) (\<lambda>k r0.
     re_then (re_greedy py_isspace 1 r0) (\<lambda>ws r1.
     re_then (re_optional 43 r1) (\<lambda>plus r2.
     re_then (re_greedy ascii_digit 1 r2) (\<lambda>digits r3.
     re_then (re_greedy py_isspace 0 r3) (\<lambda>ws1 r4.
     re_then (re_literal 124 r4) (\<lambda>bar r5.
     re_then (re_greedy py_isspace 0 r5) (\<lambda>ws2 r6.
     re_then (re_greedy (\<lambda>c. True) 1 r6) (\<lambda>cm r7.
       [(k, plus @ digits, cm)])))))))))"

definition parse_message ::
  "time \<Rightarrow> pystr \<Rightarrow> pystr option \<Rightarrow> world \<Rightarrow> (pystr \<times> pystr \<times> pystr) option \<times> world" where
  "parse_message now text department w =
     (let (cats, w') = get_all_categories now department True w in
      if cats = [] then (None, w')
      else
        (case re_match_message (map code cats) (py_strip text) of
           [] \<Rightarrow> (None, w')
         | (c, ph, cm) # _ \<Rightarrow> (Some (py_upper c, normalize_phone ph, py_strip cm), w')))"

text \<open>
  A phone token is an optional plus sign and one or more ASCII digits; a code of the
  registry is matched without regard to case.
\<close>

definition phone_token :: "pystr \<Rightarrow> bool" where
  "phone_token p \<longleftrightarrow> (\<exists>ds. ds \<noteq> [] \<and> list_all ascii_digit ds \<and> (p = ds \<or> p = 43 # ds))"

text \<open>
  The form of a work message, \<^verbatim>\<open><code> <phone> | <comment>\<close>: the items in their order,
  with optional white space on either side of the separator.
\<close>

definition message_form :: "pystr list \<Rightarrow> pystr \<Rightarrow> bool" where
  "message_form codes t \<longleftrightarrow>
     (\<exists>c k ws p ws1 ws2 cm. c \<in> set codes \<and> list_all2 ci_match c k \<and>
        ws \<noteq> [] \<and> list_all py_isspace ws \<and> phone_token p \<and>
        list_all py_isspace ws1 \<and> list_all py_isspace ws2 \<and> cm \<noteq> [] \<and>
        t = k @ ws @ p @ ws1 @ [124] @ ws2 @ cm)"

section \<open>CRM collaborator\<close>

text \<open>
  A call to a collaborator outside the program either returns or raises. The source
  reckons with both: it guards the contact request and the writing store statements by
  \<^verbatim>\<open>try\<close> and \<^verbatim>\<open>except\<close>. The same type tells how a function of the program ends:
  with a result, or with an exception that is passed on to its caller.
\<close>

datatype 'a outcome = Raises | Returns 'a

record contact =
  contact_id :: pystr
  first_name :: pystr
  last_name :: pystr
  phones :: "pystr list"

record task_answer =
  status_code :: nat
  task_id :: "nat option"

text \<open>
  What the surroundings do during the handling of one message: the clock, the user name
  under which the bot runs, the answers of the CRM to the four requests, and whether the
  store carries out a writing statement.
\<close>

record env =
  clock :: time
  bot_username :: pystr
  contact_list :: "pystr \<Rightarrow> contact list outcome"
  task_add :: "task_answer outcome"
  timeline_comment_add :: "unit outcome"
  task_complete :: "unit outcome"
  store_ok :: bool

definition find_contact_by_phone :: "env \<Rightarrow> pystr \<Rightarrow> contact option" where
  "find_contact_by_phone e ph =
     (let norm_phone_full = normalize_phone ph in
      case contact_list e norm_phone_full of
        Raises \<Rightarrow> None
      | Returns result \<Rightarrow>
          find (\<lambda>c. list_ex (\<lambda>v. clean_phone v = clean_phone norm_phone_full) (phones c)) result)"

text \<open>
  The three requests of \<open>create_task\<close> are not guarded: an exception of a request leaves
  the function. An answer without a task is only logged, and the function returns.
\<close>

definition create_task :: "env \<Rightarrow> pystr \<Rightarrow> pystr \<Rightarrow> pystr \<Rightarrow> int \<Rightarrow> world \<Rightarrow> unit outcome \<times> world" where
  "create_task e cid category_name cm responsible_id w =
     (case task_add e of
        Raises \<Rightarrow> (Raises, w)
      | Returns task_res \<Rightarrow>
          let w1 = w\<lparr>crm_calls := crm_calls w @ [TaskAdd cid category_name cm responsible_id]\<rparr> in
          if status_code task_res \<noteq> 200 then (Returns (), w1)
          else
            (case task_id task_res of
               None \<Rightarrow> (Returns (), w1)
             | Some tid \<Rightarrow>
                 if tid = 0 then (Returns (), w1)
                 else
                   (case timeline_comment_add e of
                      Raises \<Rightarrow> (Raises, w1)
                    | Returns _ \<Rightarrow>
                        let w2 = w1\<lparr>crm_calls := crm_calls w1 @
                                   [TimelineComment cid category_name cm responsible_id]\<rparr> in
                        (case task_complete e of
                           Raises \<Rightarrow> (Raises, w2)
                         | Returns _ \<Rightarrow>
                             (Returns (), w2\<lparr>crm_calls := crm_calls w2 @ [TaskComplete tid]\<rparr>)))))"

section \<open>Work messages\<close>

text \<open>
  An incoming message. \<open>bot_command\<close> is the length of the bot command that Telegram
  marks at the very start of the text (the first entity of the message), if it marks
  one: the slash, the command name and, when the command names a bot, \<^verbatim>\<open>@\<close> and the
  name of that bot.
\<close>

record update =
  chat_id :: int
  from_user_id :: int
  from_user_full_name :: pystr
  message_text :: pystr
  bot_command :: "nat option"

record pending =
  p_code :: pystr
  p_phone :: pystr
  p_comment :: pystr
  p_category_name :: pystr
  p_employee_name :: pystr
  p_responsible_id :: int
  p_department :: "pystr option"

text \<open>The dictionary \<^verbatim>\<open>context.user_data\<close>: a key that is absent has the value \<open>None\<close>.\<close>

record user_data =
  awaiting_duplicate_confirmation :: "bool option"
  pending_record :: "pending option"
  ud_department :: "pystr option"
  new_employee_tg_id :: "int option"
  new_employee_bitrix_id :: "int option"
  new_category_code :: "pystr option"

definition user_data_clear :: user_data where
  "user_data_clear =
     \<lparr>awaiting_duplicate_confirmation = None, pending_record = None, ud_department = None,
      new_employee_tg_id = None, new_employee_bitrix_id = None, new_category_code = None\<rparr>"

definition reply_text :: "reply \<Rightarrow> world \<Rightarrow> world" where
  "reply_text r w = w\<lparr>outbox := outbox w @ [r]\<rparr>"

definition save_record ::
  "env \<Rightarrow> update \<Rightarrow> pystr \<Rightarrow> pystr \<Rightarrow> pystr \<Rightarrow> pystr \<Rightarrow> pystr \<Rightarrow> int \<Rightarrow> pystr option \<Rightarrow> world
     \<Rightarrow> unit outcome \<times> world" where
  "save_record e upd c ph cm category_name employee_name responsible_id department w =
     (case find_contact_by_phone e ph of
        None \<Rightarrow> (Returns (), reply_text ClientNotInCrm w)
      | Some contact \<Rightarrow>
          (case create_task e (contact_id contact) category_name cm responsible_id w of
             (Raises, w1) \<Rightarrow> (Raises, w1)
           | (Returns _, w1) \<Rightarrow>
               (case add_record (store_ok e) (clock e) (from_user_id upd) c ph cm department w1 of
                  (None, w2) \<Rightarrow> (Returns (), reply_text StoreFailedTaskCreated w2)
                | (Some record_id, w2) \<Rightarrow>
                    if record_id = 0 then (Returns (), reply_text StoreFailedTaskCreated w2)
                    else (Returns (),
                          reply_text (RecordSaved category_name
                            (py_strip (first_name contact @ str '' '' @ last_name contact))) w2))))"

text \<open>
  The replies that count as a yes: the Ukrainian \<^emph>\<open>tak\<close> (U+0442 U+0430 U+043A),
  \<^verbatim>\<open>yes\<close>, \<^verbatim>\<open>y\<close>, and the Russian \<^emph>\<open>da\<close> (U+0434 U+0430).
\<close>

definition affirmative :: "pystr list" where
  "affirmative = [[1090, 1072, 1082], str ''yes'', str ''y'', [1076, 1072]]"

definition handle_duplicate_confirmation ::
  "env \<Rightarrow> update \<Rightarrow> user_data \<Rightarrow> world \<Rightarrow> unit outcome \<times> user_data \<times> world" where
  "handle_duplicate_confirmation e upd ud w =
     (let response = py_lower (py_strip (message_text upd));
          ud1 = ud\<lparr>awaiting_duplicate_confirmation := Some False\<rparr>
      in
      if response \<in> set affirmative then
        (case pending_record ud1 of
           None \<Rightarrow> (Returns (), user_data_clear, w)
         | Some p \<Rightarrow>
             (case save_record e upd (p_code p) (p_phone p) (p_comment p) (p_category_name p)
                     (p_employee_name p) (p_responsible_id p) (p_department p) w of
                (Raises, w1) \<Rightarrow> (Raises, ud1, w1)
              | (Returns _, w1) \<Rightarrow> (Returns (), user_data_clear, w1)))
      else (Returns (), user_data_clear, reply_text OperationCancelled w))"

definition handle_message ::
  "env \<Rightarrow> update \<Rightarrow> user_data \<Rightarrow> world \<Rightarrow> unit outcome \<times> user_data \<times> world" where
  "handle_message e upd ud w =
     (case get_department_by_chat_id (chat_id upd) of
        None \<Rightarrow> (Returns (), ud, w)
      | Some d \<Rightarrow>
          if awaiting_duplicate_confirmation ud = Some True
          then handle_duplicate_confirmation e upd ud w
          else
            (case parse_message (clock e) (message_text upd) (Some d) w of
               (None, w1) \<Rightarrow> (Returns (), ud, w1)
             | (Some (c, ph, cm), w1) \<Rightarrow>
                 (case get_category_by_code c (Some d) w1 of
                    None \<Rightarrow> (Returns (), ud, reply_text (UnknownCategory c) w1)
                  | Some cat \<Rightarrow>
                      let category_name = cat_name cat;
                          employee = get_employee_by_telegram_id (from_user_id upd) (Some d) w1;
                          employee_name =
                            (case employee of Some x \<Rightarrow> emp_name x | None \<Rightarrow> from_user_full_name upd);
                          responsible_id =
                            (case employee of Some x \<Rightarrow> bitrix_id x | None \<Rightarrow> RESPONSIBLE_ID)
                      in
                      if check_duplicate_record (clock e) (from_user_id upd) c ph (Some d) 5 w1 then
                        (Returns (),
                         ud\<lparr>awaiting_duplicate_confirmation := Some True,
                            pending_record := Some
                              \<lparr>p_code = c, p_phone = ph, p_comment = cm,
                               p_category_name = category_name, p_employee_name = employee_name,
                               p_responsible_id = responsible_id, p_department = Some d\<rparr>\<rparr>,
                         reply_text (DuplicatePrompt c) w1)
                      else
                        (case save_record e upd c ph cm category_name employee_name
                                responsible_id (Some d) w1 of
                           (r, w2) \<Rightarrow> (r, ud, w2)))))"

section \<open>Onboarding conversations\<close>

datatype conv_state =
    ADD_EMPLOYEE_TG_ID
  | ADD_EMPLOYEE_BITRIX_ID
  | ADD_EMPLOYEE_NAME
  | ADD_CATEGORY_CODE
  | ADD_CATEGORY_NAME
  | CONFIRM_DUPLICATE
  | END

text \<open>
  \<^verbatim>\<open>int(s)\<close> on a text: an optional sign, then decimal digits of any script, single
  underscores allowed between digits; white space round the number is ignored. \<open>None\<close>
  stands for the \<^verbatim>\<open>ValueError\<close>.
\<close>

definition digit_value :: "nat \<Rightarrow> nat option" where
  "digit_value c = map_option (\<lambda>z. c - z) (find (\<lambda>z. z \<le> c \<and> c \<le> z + 9) decimal_zeros)"

fun int_digits :: "pystr \<Rightarrow> nat \<Rightarrow> nat option" where
  "int_digits [] acc = Some acc"
| "int_digits (c # r) acc =
     (if c = 95 then
        (case r of
           [] \<Rightarrow> None
         | d # _ \<Rightarrow> if py_isdecimal d then int_digits r acc else None)
      else
        (case digit_value c of
           None \<Rightarrow> None
         | Some v \<Rightarrow> int_digits r (10 * acc + v)))"

definition int_unsigned :: "pystr \<Rightarrow> nat option" where
  "int_unsigned body =
     (case body of
        [] \<Rightarrow> None
      | d # _ \<Rightarrow> if py_isdecimal d then int_digits body 0 else None)"

definition py_int :: "pystr \<Rightarrow> int option" where
  "py_int s =
     (case py_strip s of
        [] \<Rightarrow> None
      | c # r \<Rightarrow>
          if c = 45 then map_option (\<lambda>n. - int n) (int_unsigned r)
          else if c = 43 then map_option int (int_unsigned r)
          else map_option int (int_unsigned (c # r)))"

text \<open>
  A handler of a conversation gives the next state. An exception leaves the conversation
  in the state it was in.
\<close>

definition start_add_employee :: "update \<Rightarrow> user_data \<Rightarrow> world \<Rightarrow> conv_state outcome \<times> user_data \<times> world" where
  "start_add_employee upd ud w =
     (if \<not> is_admin (from_user_id upd) then (Returns END, ud, reply_text NoAccess w)
      else
        (case get_department_by_chat_id (chat_id upd) of
           None \<Rightarrow> (Returns END, ud, reply_text WrongChat w)
         | Some d \<Rightarrow>
             (Returns ADD_EMPLOYEE_TG_ID, ud\<lparr>ud_department := Some d\<rparr>, reply_text AskTelegramId w)))"

definition add_employee_tg_id :: "update \<Rightarrow> user_data \<Rightarrow> world \<Rightarrow> conv_state outcome \<times> user_data \<times> world" where
  "add_employee_tg_id upd ud w =
     (case py_int (py_strip (message_text upd)) of
        Some tg_id \<Rightarrow>
          (Returns ADD_EMPLOYEE_BITRIX_ID, ud\<lparr>new_employee_tg_id := Some tg_id\<rparr>,
           reply_text AskBitrixId w)
      | None \<Rightarrow> (Returns ADD_EMPLOYEE_TG_ID, ud, reply_text InvalidTelegramId w))"

definition add_employee_bitrix_id :: "update \<Rightarrow> user_data \<Rightarrow> world \<Rightarrow> conv_state outcome \<times> user_data \<times> world" where
  "add_employee_bitrix_id upd ud w =
     (case py_int (py_strip (message_text upd)) of
        Some b \<Rightarrow>
          (Returns ADD_EMPLOYEE_NAME, ud\<lparr>new_employee_bitrix_id := Some b\<rparr>,
           reply_text AskEmployeeName w)
      | None \<Rightarrow> (Returns ADD_EMPLOYEE_BITRIX_ID, ud, reply_text InvalidBitrixId w))"

text \<open>Reading a key that \<^verbatim>\<open>user_data\<close> does not hold raises a \<^verbatim>\<open>KeyError\<close>.\<close>

definition add_employee_name :: "env \<Rightarrow> update \<Rightarrow> user_data \<Rightarrow> world \<Rightarrow> conv_state outcome \<times> user_data \<times> world" where
  "add_employee_name e upd ud w =
     (let name = py_strip (message_text upd) in
      case (new_employee_tg_id ud, new_employee_bitrix_id ud, ud_department ud) of
        (Some tg_id, Some b, Some d) \<Rightarrow>
          (case add_employee (store_ok e) tg_id name b (Some d) w of
             (True, w1) \<Rightarrow> (Returns END, user_data_clear, reply_text (EmployeeAdded tg_id b name) w1)
           | (False, w1) \<Rightarrow> (Returns END, user_data_clear, reply_text EmployeeAddFailed w1))
      | _ \<Rightarrow> (Raises, ud, w))"

definition cancel_conversation :: "update \<Rightarrow> user_data \<Rightarrow> world \<Rightarrow> conv_state outcome \<times> user_data \<times> world" where
  "cancel_conversation upd ud w = (Returns END, user_data_clear, reply_text OperationCancelled w)"

text \<open>\<^verbatim>\<open>str.split\<close> at a separator character.\<close>

fun py_split :: "nat \<Rightarrow> pystr \<Rightarrow> pystr list" where
  "py_split c [] = [[]]"
| "py_split c (x # xs) =
     (if x = c then [] # py_split c xs
      else (case py_split c xs of [] \<Rightarrow> [[x]] | p # ps \<Rightarrow> (x # p) # ps))"

text \<open>
  The filter \<^verbatim>\<open>Filters.text & ~Filters.command\<close> of the message handlers: a text that
  does not begin with a bot command.
\<close>

definition plain_text :: "update \<Rightarrow> bool" where
  "plain_text upd \<longleftrightarrow> bot_command upd = None"

text \<open>
  The test of \<^verbatim>\<open>CommandHandler(name, ...)\<close>: the message begins with a bot command, its
  name is \<open>name\<close> in any case, and the bot it names, if it names one, is this bot.
\<close>

definition is_command :: "pystr \<Rightarrow> pystr \<Rightarrow> update \<Rightarrow> bool" where
  "is_command username name upd =
     (case bot_command upd of
        None \<Rightarrow> False
      | Some n \<Rightarrow>
          let command = py_split 64 (take (n - 1) (drop 1 (message_text upd))) @ [username]
          in py_lower (hd command) = name \<and> py_lower (hd (tl command)) = py_lower username)"

text \<open>
  The conversation handler of \<^verbatim>\<open>/add_employee\<close> as \<open>main\<close> sets it up: the entry
  point, one handler of plain texts for each of the three states, and the fallback
  \<^verbatim>\<open>/cancel\<close>, which is tried in every state of a running conversation. \<open>END\<close> is the
  state of a user without a running conversation. The result \<open>None\<close> says that the
  handler does not take the message.
\<close>

definition add_employee_handler ::
  "env \<Rightarrow> conv_state \<Rightarrow> update \<Rightarrow> user_data \<Rightarrow> world
     \<Rightarrow> (conv_state outcome \<times> user_data \<times> world) option" where
  "add_employee_handler e state upd ud w =
     (if state = END then
        (if is_command (bot_username e) (str ''add_employee'') upd
         then Some (start_add_employee upd ud w) else None)
      else if state = ADD_EMPLOYEE_TG_ID \<and> plain_text upd
        then Some (add_employee_tg_id upd ud w)
      else if state = ADD_EMPLOYEE_BITRIX_ID \<and> plain_text upd
        then Some (add_employee_bitrix_id upd ud w)
      else if state = ADD_EMPLOYEE_NAME \<and> plain_text upd
        then Some (add_employee_name e upd ud w)
      else if is_command (bot_username e) (str ''cancel'') upd
        then Some (cancel_conversation upd ud w)
      else None)"


section \<open>Aggregation engine\<close>

text \<open>
  A row of the history query: the record with the names that the two left joins find.
  A reference that does not resolve leaves the name \<open>None\<close> (SQL \<^verbatim>\<open>NULL\<close>).
\<close>

record joined_row =
  j_timestamp :: time
  j_employee_name :: "pystr option"
  j_category_name :: "pystr option"
  j_category_code :: pystr
  j_phone :: pystr
  j_comment :: pystr

definition join_row :: "employee list \<Rightarrow> category list \<Rightarrow> record_row \<Rightarrow> joined_row" where
  "join_row es cs r =
     \<lparr>j_timestamp = timestamp r,
      j_employee_name = map_option emp_name (find (\<lambda>e. telegram_id e = employee_telegram_id r) es),
      j_category_name = map_option cat_name (find (\<lambda>c. code c = category_code r) cs),
      j_category_code = category_code r,
      j_phone = phone r,
      j_comment = comment r\<rparr>"

definition get_records_by_phone :: "time \<Rightarrow> pystr \<Rightarrow> int \<Rightarrow> pystr option \<Rightarrow> world \<Rightarrow> joined_row list" where
  "get_records_by_phone now ph days department w =
     (case get_table_prefix department of
        None \<Rightarrow> []
      | Some prefix \<Rightarrow>
          map (join_row (employees (db w) prefix) (categories (db w) prefix))
            (sort_key (\<lambda>r. - timestamp r)
               (filter (\<lambda>r. phone r = ph \<and> timestamp r > now - make_interval_days days)
                  (records (db w) prefix))))"

text \<open>
  \<^verbatim>\<open>collections.Counter\<close>: the keys in the order of their first occurrence, each with
  the number of its occurrences; \<open>most_common\<close> orders them by falling count and keeps
  the order of keys with equal counts.
\<close>

fun counter_add :: "'a \<Rightarrow> ('a \<times> nat) list \<Rightarrow> ('a \<times> nat) list" where
  "counter_add x [] = [(x, 1)]"
| "counter_add x ((y, n) # r) = (if y = x then (y, Suc n) # r else (y, n) # counter_add x r)"

definition Counter :: "'a list \<Rightarrow> ('a \<times> nat) list" where
  "Counter xs = fold counter_add xs []"

definition most_common :: "('a \<times> nat) list \<Rightarrow> ('a \<times> nat) list" where
  "most_common c = sort_key (\<lambda>p. - int (snd p)) c"

text \<open>
  The aggregation of \<open>handle_info_command\<close> over the fetched rows: the total, the count
  by employee name over the rows whose \<^verbatim>\<open>employee_name\<close> is true (neither \<^verbatim>\<open>None\<close>
  nor empty), the count by the pair of category code and category name over the rows
  whose \<^verbatim>\<open>category_code\<close> is true, and the five latest rows.
\<close>

record info_summary =
  total_count :: nat
  by_emp :: "(pystr \<times> nat) list"
  by_cat :: "((pystr \<times> pystr option) \<times> nat) list"
  latest :: "joined_row list"

definition handle_info_summary :: "joined_row list \<Rightarrow> info_summary" where
  "handle_info_summary rows =
     \<lparr>total_count = length rows,
      by_emp = most_common (Counter
        (map (\<lambda>r. the (j_employee_name r))
           (filter (\<lambda>r. j_employee_name r \<noteq> None \<and> j_employee_name r \<noteq> Some []) rows))),
      by_cat = most_common (Counter
        (map (\<lambda>r. (j_category_code r, j_category_name r))
           (filter (\<lambda>r. j_category_code r \<noteq> []) rows))),
      latest = take 5 rows\<rparr>"

section \<open>Example data\<close>

definition support :: "pystr option" where
  "support = Some (str ''support'')"

definition cl1 :: category where
  "cl1 = \<lparr>code = str ''CL1'', cat_name = str ''Complaint''\<rparr>"

definition db0 :: database where
  "db0 = \<lparr>employees = (\<lambda>_. []), categories = (\<lambda>_. [cl1]), records = (\<lambda>_. [])\<rparr>"

definition world0 :: world where
  "world0 = \<lparr>db = db0, categories_cache = Map.empty, categories_cache_time = Map.empty,
             outbox = [], crm_calls = []\<rparr>"

definition client :: contact where
  "client = \<lparr>contact_id = str ''15'', first_name = str ''Ivan'', last_name = str ''Franko'',
             phones = [str ''+38 (063) 123-45-67'']\<rparr>"

text \<open>Surroundings in which everything answers well, and a CRM without any contact.\<close>

definition env0 :: env where
  "env0 = \<lparr>clock = 0, bot_username = str ''support_bot'',
           contact_list = (\<lambda>_. Returns [client]),
           task_add = Returns \<lparr>status_code = 200, task_id = Some 1\<rparr>,
           timeline_comment_add = Returns (), task_complete = Returns (), store_ok = True\<rparr>"

definition env_no_contact :: env where
  "env_no_contact = env0\<lparr>contact_list := (\<lambda>_. Returns [])\<rparr>"

text \<open>Surroundings in which the request that creates the task raises.\<close>

definition env_task_raises :: env where
  "env_task_raises = env0\<lparr>task_add := Raises\<rparr>"

definition message :: "pystr \<Rightarrow> update" where
  "message t = \<lparr>chat_id = SUPPORT_CHAT_ID, from_user_id = 7,
                from_user_full_name = str ''Olena'', message_text = t, bot_command = None\<rparr>"

text \<open>A message that begins with a bot command of the given length.\<close>

definition command_message :: "pystr \<Rightarrow> nat \<Rightarrow> update" where
  "command_message t n = (message t)\<lparr>bot_command := Some n\<rparr>"

definition pending0 :: pending where
  "pending0 = \<lparr>p_code = str ''CL1'', p_phone = str ''+380631234567'', p_comment = str ''x'',
               p_category_name = str ''Complaint'', p_employee_name = str ''Olena'',
               p_responsible_id = 596, p_department = support\<rparr>"

definition awaiting0 :: user_data where
  "awaiting0 = user_data_clear\<lparr>awaiting_duplicate_confirmation := Some True,
                               pending_record := Some pending0\<rparr>"

text \<open>
  A store in which the category OLD has been deleted after a record of it was written,
  and in which the employee of that record is unknown.
\<close>

definition orphan :: record_row where
  "orphan = \<lparr>rec_id = 1, employee_telegram_id = 7, category_code = str ''OLD'',
             phone = str ''+380631234567'', comment = str ''x'', timestamp = 0\<rparr>"

definition world_orphan :: world where
  "world_orphan = world0\<lparr>db := db0\<lparr>records := (\<lambda>_. [orphan])\<rparr>\<rparr>"

text \<open>
  The world after the message \<^verbatim>\<open>CL1 +380631234567 | x\<close> of user 7 has been handled in
  \<open>world0\<close> at time 0, and the surroundings one minute later.
\<close>

definition submission :: update where
  "submission = message (str ''CL1 +380631234567 | x'')"

definition record1 :: record_row where
  "record1 = \<lparr>rec_id = 1, employee_telegram_id = 7, category_code = str ''CL1'',
              phone = str ''+380631234567'', comment = str ''x'', timestamp = 0\<rparr>"

definition world1 :: world where
  "world1 =
     \<lparr>db = db0\<lparr>records := (\<lambda>_. [])(str ''support'' := [record1])\<rparr>,
      categories_cache = [support \<mapsto> [cl1]],
      categories_cache_time = [support \<mapsto> 0],
      outbox = [RecordSaved (str ''Complaint'') (str ''Ivan Franko'')],
      crm_calls = [TaskAdd (str ''15'') (str ''Complaint'') (str ''x'') 596,
                   TimelineComment (str ''15'') (str ''Complaint'') (str ''x'') 596,
                   TaskComplete 1]\<rparr>"

definition env1 :: env where
  "env1 = env0\<lparr>clock := seconds 60\<rparr>"

text \<open>The world after the same message has been handled again at that time.\<close>

definition world2 :: world where
  "world2 = reply_text (DuplicatePrompt (str ''CL1''))
              (world1\<lparr>categories_cache_time := [support \<mapsto> seconds 60]\<rparr>)"

section \<open>Verified properties\<close>

subsection \<open>Phone normalizer\<close>

lemma plus_not_decimal: "\<not> py_isdecimal 43"
  by (simp add: py_isdecimal_def decimal_zeros_def)

lemma ascii_digit_decimal: "ascii_digit c \<Longrightarrow> py_isdecimal c"
  by (simp add: py_isdecimal_def decimal_zeros_def ascii_digit_def)

lemma str_plus: "str ''+'' = [43]" and str_0: "str ''0'' = [48]"
  and str_38: "str ''38'' = [51, 56]" and str_380: "str ''380'' = [51, 56, 48]"
  and str_plus380: "str ''+380'' = [43, 51, 56, 48]"
  by (simp_all add: str_def)

lemma decimal_380: "py_isdecimal 51" "py_isdecimal 56" "py_isdecimal 48"
  by (simp_all add: py_isdecimal_def decimal_zeros_def)

lemma clean_phone_decimal: "list_all py_isdecimal (clean_phone p)"
  by (simp add: clean_phone_def list_all_iff)

lemma clean_phone_id: "list_all py_isdecimal n \<Longrightarrow> clean_phone n = n"
  by (simp add: clean_phone_def list_all_iff)

text \<open>Whatever the input, the result is a plus sign before a canonical digit string.\<close>

lemma normalize_phone_shape: "\<exists>n. normalize_phone s = 43 # n \<and> canonical n"
proof -
  define d where "d = clean_phone s"
  have dd: "list_all py_isdecimal d" by (simp add: d_def clean_phone_decimal)
  define e where "e = (if startswith d (str ''0'') then str ''38'' @ d else d)"
  have de: "list_all py_isdecimal e" using dd by (simp add: e_def str_38 decimal_380)
  define f where
    "f = (if \<not> startswith e (str ''380'') then str ''380'' @ lstrip_chars e (str ''380'') else e)"
  have "list_all py_isdecimal (lstrip_chars e (str ''380''))"
    using de unfolding lstrip_chars_def list_all_iff by (meson set_dropWhileD)
  then have df: "list_all py_isdecimal f" using de by (simp add: f_def str_380 decimal_380)
  have sf: "startswith f (str ''380'')" by (simp add: f_def startswith_def str_380)
  have "normalize_phone s = 43 # f"
    by (simp add: normalize_phone_def Let_def d_def e_def f_def str_plus)
  then show ?thesis using df sf by (auto simp: canonical_def)
qed

text \<open>A plus sign before a canonical digit string is mapped to itself.\<close>

lemma normalize_phone_canonical: "canonical n \<Longrightarrow> normalize_phone (43 # n) = 43 # n"
proof -
  assume c: "canonical n"
  then have cl: "clean_phone (43 # n) = n"
    using clean_phone_id[of n] by (simp add: clean_phone_def canonical_def plus_not_decimal)
  from c have s: "startswith n (str ''380'')" by (simp add: canonical_def)
  then have "\<not> startswith n (str ''0'')"
    by (cases n) (auto simp: startswith_def str_0 str_380)
  then show ?thesis using s cl by (simp add: normalize_phone_def Let_def str_plus)
qed

text \<open>
  Claim C7. Phone normalization is idempotent: normalizing the result of a normalization
  gives that result again, for every input text. In particular a phone that is already
  written as \<^verbatim>\<open>+380\<close> followed by digits is returned unchanged.
\<close>

theorem normalize_phone_idempotent:
  "normalize_phone (normalize_phone s) = normalize_phone s \<and>
   (list_all ascii_digit ds \<longrightarrow> normalize_phone (str ''+380'' @ ds) = str ''+380'' @ ds)"
proof
  obtain n where n: "normalize_phone s = 43 # n" "canonical n"
    using normalize_phone_shape by blast
  then show "normalize_phone (normalize_phone s) = normalize_phone s"
    by (simp add: normalize_phone_canonical)
next
  show "list_all ascii_digit ds \<longrightarrow> normalize_phone (str ''+380'' @ ds) = str ''+380'' @ ds"
  proof
    assume a: "list_all ascii_digit ds"
    then have "list_all py_isdecimal ds" by (simp add: list_all_iff ascii_digit_decimal)
    then have "canonical ([51, 56, 48] @ ds)"
      by (simp add: canonical_def decimal_380 startswith_def str_380)
    from normalize_phone_canonical[OF this]
    show "normalize_phone (str ''+380'' @ ds) = str ''+380'' @ ds" by (simp add: str_plus380)
  qed
qed

theorem normalize_phone_idempotent_witness:
  "list_all ascii_digit (str ''631234567'') \<and>
   normalize_phone (str ''+380631234567'') = str ''+380631234567'' \<and>
   normalize_phone (normalize_phone (str ''063 123-45-67'')) = str ''+380631234567''"
proof -
  have a: "list_all ascii_digit (str ''631234567'')" by (simp add: str_def ascii_digit_def)
  have b: "str ''+380'' @ str ''631234567'' = str ''+380631234567''" by (simp add: str_def)
  have c: "normalize_phone (str ''063 123-45-67'') = str ''+380631234567''"
    by (simp add: normalize_phone_def clean_phone_def str_def py_isdecimal_def
        decimal_zeros_def startswith_def lstrip_chars_def)
  from normalize_phone_idempotent[of "str ''063 123-45-67''" "str ''631234567''"] a b c
  show ?thesis by simp
qed





subsection \<open>Duplicate detector\<close>

lemma support_prefix: "get_table_prefix support = Some (str ''support'')"
  by (simp add: get_table_prefix_def support_def)

lemma upper_CL1: "py_upper (str ''CL1'') = str ''CL1''"
  by (simp add: py_upper_def upper_cp_def str_def)

text \<open>
  Claim C3. With the five-minute window, the duplicate check on an employee, a category
  code, a phone and a department answers true when the department's table holds a record
  of that employee, category and phone created less than five minutes before the check,
  and false when every such record is five minutes and one second old or older. The
  category of a stored record is its code in upper case, the form in which
  \<open>add_record\<close> stores it and in which the check compares it.
\<close>

theorem check_duplicate_record_window:
  assumes "get_table_prefix department = Some prefix"
  shows "((\<exists>r \<in> set (records (db w) prefix).
            employee_telegram_id r = tid \<and> category_code r = py_upper c \<and> phone r = ph \<and>
            now - timestamp r < seconds (5 * 60))
          \<longrightarrow> check_duplicate_record now tid c ph department 5 w) \<and>
         ((\<forall>r \<in> set (records (db w) prefix).
            employee_telegram_id r = tid \<and> category_code r = py_upper c \<and> phone r = ph
            \<longrightarrow> seconds (5 * 60 + 1) \<le> now - timestamp r)
          \<longrightarrow> \<not> check_duplicate_record now tid c ph department 5 w)"
proof (intro conjI impI)
  assume "\<exists>r \<in> set (records (db w) prefix).
            employee_telegram_id r = tid \<and> category_code r = py_upper c \<and> phone r = ph \<and>
            now - timestamp r < seconds (5 * 60)"
  then obtain r where r: "r \<in> set (records (db w) prefix)" "duplicate_of now tid c ph 5 r"
    by (auto simp: duplicate_of_def make_interval_mins_def seconds_def)
  then have "filter (duplicate_of now tid c ph 5) (records (db w) prefix) \<noteq> []"
    by (auto simp: filter_empty_conv)
  then show "check_duplicate_record now tid c ph department 5 w"
    using assms by (simp add: check_duplicate_record_def)
next
  assume old: "\<forall>r \<in> set (records (db w) prefix).
            employee_telegram_id r = tid \<and> category_code r = py_upper c \<and> phone r = ph
            \<longrightarrow> seconds (5 * 60 + 1) \<le> now - timestamp r"
  have "\<not> duplicate_of now tid c ph 5 r" if "r \<in> set (records (db w) prefix)" for r
    using old that by (auto simp: duplicate_of_def make_interval_mins_def seconds_def)
  then have "filter (duplicate_of now tid c ph 5) (records (db w) prefix) = []"
    by (simp add: filter_empty_conv)
  then show "\<not> check_duplicate_record now tid c ph department 5 w"
    using assms by (simp add: check_duplicate_record_def)
qed

text \<open>
  A record stored at second 0 is a duplicate at second 299 and none at second 301.
\<close>

theorem check_duplicate_record_window_witness:
  "get_table_prefix support = Some (str ''support'') \<and>
   check_duplicate_record (seconds 299) 7 (str ''cl1'') (str ''+380631234567'') support 5
     (snd (add_record True 0 7 (str ''cl1'') (str ''+380631234567'') (str ''x'') support world0)) \<and>
   \<not> check_duplicate_record (seconds 301) 7 (str ''cl1'') (str ''+380631234567'') support 5
     (snd (add_record True 0 7 (str ''cl1'') (str ''+380631234567'') (str ''x'') support world0))"
proof -
  define w where
    "w = snd (add_record True 0 7 (str ''cl1'') (str ''+380631234567'') (str ''x'') support world0)"
  have rows: "records (db w) (str ''support'') =
      [\<lparr>rec_id = 1, employee_telegram_id = 7, category_code = py_upper (str ''cl1''),
        phone = str ''+380631234567'', comment = str ''x'', timestamp = 0\<rparr>]"
    by (simp add: w_def add_record_def support_prefix world0_def db0_def next_id_def)
  have a: "\<exists>r \<in> set (records (db w) (str ''support'')).
            employee_telegram_id r = 7 \<and> category_code r = py_upper (str ''cl1'') \<and>
            phone r = str ''+380631234567'' \<and> seconds 299 - timestamp r < seconds (5 * 60)"
    by (simp add: rows seconds_def)
  have b: "\<forall>r \<in> set (records (db w) (str ''support'')).
            employee_telegram_id r = 7 \<and> category_code r = py_upper (str ''cl1'') \<and>
            phone r = str ''+380631234567''
            \<longrightarrow> seconds (5 * 60 + 1) \<le> seconds 301 - timestamp r"
    by (simp add: rows seconds_def)
  from check_duplicate_record_window[OF support_prefix, of w 7 "str ''cl1''" "str ''+380631234567''" "seconds 299"]
    check_duplicate_record_window[OF support_prefix, of w 7 "str ''cl1''" "str ''+380631234567''" "seconds 301"]
    a b support_prefix
  show ?thesis unfolding w_def by blast
qed

subsection \<open>Category registry and its cache\<close>

lemma upsert_category_mem: "\<lparr>code = k, cat_name = n\<rparr> \<in> set (upsert_category \<lparr>code = k, cat_name = n\<rparr> xs)"
  by (induction xs) auto

lemma select_categories_set: "set (select_categories prefix w) = set (categories (db w) prefix)"
  by (simp add: select_categories_def)

lemma get_all_categories_invalidated:
  assumes "get_table_prefix department = Some prefix"
  shows "fst (get_all_categories now department use_cache (invalidate department w)) =
         select_categories prefix (invalidate department w)"
  using assms by (cases use_cache) (simp_all add: get_all_categories_def invalidate_def)

text \<open>
  Claim C5. A category mutation that the store carries out, an add or update as well as
  a delete, drops the department's cache entry, so the category list read next, with no
  write in between, is the content of the store after the mutation: it holds the added
  or updated category, and it holds no category of the deleted code. This is so whatever
  the cache held before, at whatever time the read happens, and with or without
  \<open>use_cache\<close>.
\<close>

theorem category_mutation_invalidates_cache:
  assumes "get_table_prefix department = Some prefix"
  shows "categories_cache (snd (add_category True c name department w)) department = None \<and>
         categories_cache_time (snd (add_category True c name department w)) department = None \<and>
         categories_cache (snd (delete_category True c department w)) department = None \<and>
         categories_cache_time (snd (delete_category True c department w)) department = None \<and>
         fst (get_all_categories now department use_cache (snd (add_category True c name department w)))
           = select_categories prefix (snd (add_category True c name department w)) \<and>
         \<lparr>code = py_upper c, cat_name = name\<rparr>
           \<in> set (fst (get_all_categories now department use_cache
                         (snd (add_category True c name department w)))) \<and>
         fst (get_all_categories now department use_cache (snd (delete_category True c department w)))
           = select_categories prefix (snd (delete_category True c department w)) \<and>
         \<not> list_ex (\<lambda>x. code x = py_upper c)
             (fst (get_all_categories now department use_cache
                     (snd (delete_category True c department w))))"
proof -
  define wa where "wa = w\<lparr>db := (db w)\<lparr>categories := (categories (db w))
      (prefix := upsert_category \<lparr>code = py_upper c, cat_name = name\<rparr> (categories (db w) prefix))\<rparr>\<rparr>"
  define wd where "wd = w\<lparr>db := (db w)\<lparr>categories := (categories (db w))
      (prefix := filter (\<lambda>x. code x \<noteq> py_upper c) (categories (db w) prefix))\<rparr>\<rparr>"
  have a: "snd (add_category True c name department w) = invalidate department wa"
    using assms by (simp add: add_category_def wa_def)
  have d: "snd (delete_category True c department w) = invalidate department wd"
    using assms by (simp add: delete_category_def wd_def)
  have ra: "fst (get_all_categories now department use_cache (invalidate department wa))
            = select_categories prefix (invalidate department wa)"
    by (rule get_all_categories_invalidated[OF assms])
  have rd: "fst (get_all_categories now department use_cache (invalidate department wd))
            = select_categories prefix (invalidate department wd)"
    by (rule get_all_categories_invalidated[OF assms])
  have ma: "\<lparr>code = py_upper c, cat_name = name\<rparr> \<in> set (select_categories prefix (invalidate department wa))"
    by (simp add: select_categories_set invalidate_def wa_def upsert_category_mem)
  have md: "\<not> list_ex (\<lambda>x. code x = py_upper c) (select_categories prefix (invalidate department wd))"
    by (simp add: list_ex_iff select_categories_set invalidate_def wd_def)
  have ca: "categories_cache (invalidate department wa) department = None"
    and cd: "categories_cache (invalidate department wd) department = None"
    and ta: "categories_cache_time (invalidate department wa) department = None"
    and td: "categories_cache_time (invalidate department wd) department = None"
    by (simp_all add: invalidate_def)
  show ?thesis
    unfolding a d using ra rd ma md ca cd ta td by simp
qed

text \<open>
  A cache filled one second earlier still answers with the old list; after the update
  of CL1 the next cached read shows the new name.
\<close>

theorem category_mutation_invalidates_cache_witness:
  "get_table_prefix support = Some (str ''support'') \<and>
   fst (get_all_categories (seconds 1) support True
          (snd (get_all_categories 0 support True world0))) = [cl1] \<and>
   fst (get_all_categories (seconds 1) support True
          (snd (add_category True (str ''cl1'') (str ''Claim'') support
                 (snd (get_all_categories 0 support True world0)))))
     = [\<lparr>code = str ''CL1'', cat_name = str ''Claim''\<rparr>]"
proof -
  define w1 where "w1 = snd (get_all_categories 0 support True world0)"
  have w1: "w1 = world0\<lparr>categories_cache := [support \<mapsto> [cl1]],
                         categories_cache_time := [support \<mapsto> 0]\<rparr>"
    by (simp add: w1_def get_all_categories_def support_prefix world0_def db0_def
        select_categories_def)
  have old: "fst (get_all_categories (seconds 1) support True w1) = [cl1]"
    by (simp add: w1 get_all_categories_def support_prefix seconds_def)
  have tbl: "select_categories (str ''support'')
               (snd (add_category True (str ''cl1'') (str ''Claim'') support w1))
             = [\<lparr>code = str ''CL1'', cat_name = str ''Claim''\<rparr>]"
    by (simp add: w1 add_category_def support_prefix invalidate_def select_categories_def
        world0_def db0_def cl1_def upper_CL1 py_upper_def upper_cp_def str_def)
  from category_mutation_invalidates_cache[OF support_prefix,
      of "str ''cl1''" "str ''Claim''" w1 "seconds 1" True] tbl old support_prefix
  show ?thesis unfolding w1_def by simp
qed

text \<open>
  Claim C8, as the code has it. For a department with tables, \<open>get_all_categories\<close>
  returns the cached list, and changes nothing, exactly when \<open>use_cache\<close> is true and
  both cache dictionaries hold an entry of the department that is less than sixty seconds
  old. In every other case it returns the list read from the store; it writes that list
  and the current time into the cache only when \<open>use_cache\<close> is true, and leaves the
  cache as it is when \<open>use_cache\<close> is false.
\<close>

theorem get_all_categories_cases:
  assumes "get_table_prefix department = Some prefix"
  shows "get_all_categories now department use_cache w =
     (if use_cache \<and> (\<exists>cached t. categories_cache w department = Some cached \<and>
                          categories_cache_time w department = Some t \<and> now - t < seconds 60)
      then (the (categories_cache w department), w)
      else (select_categories prefix w,
            if use_cache
            then w\<lparr>categories_cache := (categories_cache w)(department \<mapsto> select_categories prefix w),
                   categories_cache_time := (categories_cache_time w)(department \<mapsto> now)\<rparr>
            else w))"
  using assms
  by (cases use_cache; cases "categories_cache w department";
      cases "categories_cache_time w department")
     (simp_all add: get_all_categories_def)

theorem get_all_categories_cases_witness:
  "get_table_prefix support = Some (str ''support'') \<and>
   get_all_categories 5 support True world0 =
     ([cl1], world0\<lparr>categories_cache := [support \<mapsto> [cl1]],
                    categories_cache_time := [support \<mapsto> 5]\<rparr>)"
proof -
  have s: "select_categories (str ''support'') world0 = [cl1]"
    by (simp add: select_categories_def world0_def db0_def)
  from get_all_categories_cases[OF support_prefix, of 5 True world0] s support_prefix
  show ?thesis by (simp add: world0_def)
qed

text \<open>
  The claim as stated fails for a read with \<open>use_cache\<close> false: the list read from the
  store is returned, and nothing is stored in the cache.
\<close>

theorem get_all_categories_uncached_counterexample:
  "fst (get_all_categories 5 support False world0) = [cl1] \<and>
   categories_cache (snd (get_all_categories 5 support False world0)) support = None \<and>
   categories_cache_time (snd (get_all_categories 5 support False world0)) support = None"
  by (simp add: get_all_categories_def support_prefix select_categories_def world0_def db0_def)

subsection \<open>Grammar parser\<close>

lemma takeWhile_all_append: "list_all p a \<Longrightarrow> takeWhile p (a @ b) = a @ takeWhile p b"
  by (induction a) auto

lemma re_greedy_mem:
  "(a, b) \<in> set (re_greedy p lo s) \<longleftrightarrow> s = a @ b \<and> lo \<le> length a \<and> list_all p a"
proof
  assume "(a, b) \<in> set (re_greedy p lo s)"
  then obtain n where n: "lo \<le> n" "n \<le> length (takeWhile p s)" "a = take n s" "b = drop n s"
    by (auto simp: re_greedy_def)
  have "take n s = take n (takeWhile p s)"
    using n(2) by (metis append_eq_conv_conj takeWhile_dropWhile_id take_all min.absorb2 length_take take_take)
  then have "list_all p a"
    using n(3) by (metis in_set_takeD list_all_iff set_takeWhileD)
  moreover have "length (takeWhile p s) \<le> length s" by (rule length_takeWhile_le)
  ultimately show "s = a @ b \<and> lo \<le> length a \<and> list_all p a" using n by auto
next
  assume r: "s = a @ b \<and> lo \<le> length a \<and> list_all p a"
  then have "takeWhile p s = a @ takeWhile p b" by (simp add: takeWhile_all_append)
  then have "length a \<le> length (takeWhile p s)" by simp
  moreover have "take (length a) s = a" "drop (length a) s = b" using r by auto
  ultimately show "(a, b) \<in> set (re_greedy p lo s)"
    using r unfolding re_greedy_def
    by (auto simp: image_iff intro!: bexI[where x = "length a"])
qed

lemma re_literal_mem: "(a, b) \<in> set (re_literal c s) \<longleftrightarrow> a = [c] \<and> s = c # b"
  by (auto simp: re_literal_def split: list.splits if_splits)

lemma re_optional_mem:
  "(a, b) \<in> set (re_optional c s) \<longleftrightarrow> (a = [c] \<and> s = c # b) \<or> (a = [] \<and> s = b)"
  by (auto simp: re_optional_def re_literal_mem)

lemma re_literal_ci_mem:
  "(k, r) \<in> set (re_literal_ci c s) \<longleftrightarrow> s = k @ r \<and> list_all2 ci_match c k"
proof
  assume "(k, r) \<in> set (re_literal_ci c s)"
  then show "s = k @ r \<and> list_all2 ci_match c k"
    by (auto simp: re_literal_ci_def split: if_splits)
next
  assume a: "s = k @ r \<and> list_all2 ci_match c k"
  then have "length c = length k" by (auto dest: list_all2_lengthD)
  then show "(k, r) \<in> set (re_literal_ci c s)"
    using a by (simp add: re_literal_ci_def)
qed

lemma re_then_mem:
  "x \<in> set (re_then ms f) \<longleftrightarrow> (\<exists>a r. (a, r) \<in> set ms \<and> x \<in> set (f a r))"
  by (auto simp: re_then_def List.set_list_bind)

text \<open>What it is for a triple of groups to be among the matches.\<close>

lemma re_match_message_mem:
  "(k, ph, cm) \<in> set (re_match_message codes t) \<longleftrightarrow>
     (\<exists>c ws plus digits ws1 ws2 rest.
        c \<in> set codes \<and> list_all2 ci_match c k \<and>
        1 \<le> length ws \<and> list_all py_isspace ws \<and>
        (plus = [43] \<or> plus = []) \<and> 1 \<le> length digits \<and> list_all ascii_digit digits \<and>
        list_all py_isspace ws1 \<and> list_all py_isspace ws2 \<and> 1 \<le> length cm \<and>
        ph = plus @ digits \<and>
        t = k @ ws @ plus @ digits @ ws1 @ [124] @ ws2 @ cm @ rest)"
proof -
  have "(k, ph, cm) \<in> set (re_match_message codes t) \<longleftrightarrow>
     (\<exists>c \<in> set codes. \<exists>k' r0. (k', r0) \<in> set (re_literal_ci c t) \<and>
       (\<exists>ws r1. (ws, r1) \<in> set (re_greedy py_isspace 1 r0) \<and>
       (\<exists>plus r2. (plus, r2) \<in> set (re_optional 43 r1) \<and>
       (\<exists>digits r3. (digits, r3) \<in> set (re_greedy ascii_digit 1 r2) \<and>
       (\<exists>ws1 r4. (ws1, r4) \<in> set (re_greedy py_isspace 0 r3) \<and>
       (\<exists>bar r5. (bar, r5) \<in> set (re_literal 124 r4) \<and>
       (\<exists>ws2 r6. (ws2, r6) \<in> set (re_greedy py_isspace 0 r5) \<and>
       (\<exists>cm' r7. (cm', r7) \<in> set (re_greedy (\<lambda>c. True) 1 r6) \<and>
          (k, ph, cm) \<in> set [(k', plus @ digits, cm')]))))))))"
    unfolding re_match_message_def
    by (simp only: re_then_mem List.set_list_bind UN_iff)
  also have "\<dots> \<longleftrightarrow>
     (\<exists>c ws plus digits ws1 ws2 rest.
        c \<in> set codes \<and> list_all2 ci_match c k \<and>
        1 \<le> length ws \<and> list_all py_isspace ws \<and>
        (plus = [43] \<or> plus = []) \<and> 1 \<le> length digits \<and> list_all ascii_digit digits \<and>
        list_all py_isspace ws1 \<and> list_all py_isspace ws2 \<and> 1 \<le> length cm \<and>
        ph = plus @ digits \<and>
        t = k @ ws @ plus @ digits @ ws1 @ [124] @ ws2 @ cm @ rest)"
    (is "?L \<longleftrightarrow> ?R")
  proof
    assume ?L
    then obtain c k' r0 ws r1 plus r2 digits r3 ws1 r4 bar r5 ws2 r6 cm' r7 where
      c: "c \<in> set codes" and
      m: "(k', r0) \<in> set (re_literal_ci c t)" "(ws, r1) \<in> set (re_greedy py_isspace 1 r0)"
         "(plus, r2) \<in> set (re_optional 43 r1)" "(digits, r3) \<in> set (re_greedy ascii_digit 1 r2)"
         "(ws1, r4) \<in> set (re_greedy py_isspace 0 r3)" "(bar, r5) \<in> set (re_literal 124 r4)"
         "(ws2, r6) \<in> set (re_greedy py_isspace 0 r5)"
         "(cm', r7) \<in> set (re_greedy (\<lambda>c. True) 1 r6)" and
      e: "(k, ph, cm) \<in> set [(k', plus @ digits, cm')]"
      by blast
    from e have e': "k' = k" "ph = plus @ digits" "cm' = cm" by auto
    from m(3) have pl: "plus = [43] \<or> plus = []" and r1: "r1 = plus @ r2"
      by (auto simp: re_optional_mem)
    from m have "t = k @ ws @ plus @ digits @ ws1 @ [124] @ ws2 @ cm @ r7"
      unfolding re_greedy_mem re_literal_mem re_literal_ci_mem e' r1 by simp
    moreover from m have "list_all2 ci_match c k" "1 \<le> length ws" "list_all py_isspace ws"
      "1 \<le> length digits" "list_all ascii_digit digits" "list_all py_isspace ws1"
      "list_all py_isspace ws2" "1 \<le> length cm"
      unfolding re_greedy_mem re_literal_mem re_literal_ci_mem e' by simp_all
    ultimately show ?R using c pl e'(2) by blast
  next
    assume ?R
    then obtain c ws plus digits ws1 ws2 rest where
      c: "c \<in> set codes" "list_all2 ci_match c k" and
      ws: "1 \<le> length ws" "list_all py_isspace ws" and
      pl: "plus = [43] \<or> plus = []" and
      ds: "1 \<le> length digits" "list_all ascii_digit digits" and
      w12: "list_all py_isspace ws1" "list_all py_isspace ws2" and
      cm: "1 \<le> length cm" and ph: "ph = plus @ digits" and
      t: "t = k @ ws @ plus @ digits @ ws1 @ [124] @ ws2 @ cm @ rest"
      by blast
    have 1: "(k, ws @ plus @ digits @ ws1 @ [124] @ ws2 @ cm @ rest) \<in> set (re_literal_ci c t)"
      using c t by (simp add: re_literal_ci_mem)
    have 2: "(ws, plus @ digits @ ws1 @ [124] @ ws2 @ cm @ rest)
          \<in> set (re_greedy py_isspace 1 (ws @ plus @ digits @ ws1 @ [124] @ ws2 @ cm @ rest))"
      using ws by (simp add: re_greedy_mem)
    have 3: "(plus, digits @ ws1 @ [124] @ ws2 @ cm @ rest)
          \<in> set (re_optional 43 (plus @ digits @ ws1 @ [124] @ ws2 @ cm @ rest))"
      using pl by (auto simp: re_optional_mem)
    have 4: "(digits, ws1 @ [124] @ ws2 @ cm @ rest)
          \<in> set (re_greedy ascii_digit 1 (digits @ ws1 @ [124] @ ws2 @ cm @ rest))"
      using ds by (simp add: re_greedy_mem)
    have 5: "(ws1, [124] @ ws2 @ cm @ rest)
          \<in> set (re_greedy py_isspace 0 (ws1 @ [124] @ ws2 @ cm @ rest))"
      using w12 by (simp add: re_greedy_mem)
    have 6: "([124], ws2 @ cm @ rest) \<in> set (re_literal 124 ([124] @ ws2 @ cm @ rest))"
      by (simp add: re_literal_mem)
    have 7: "(ws2, cm @ rest) \<in> set (re_greedy py_isspace 0 (ws2 @ cm @ rest))"
      using w12 by (simp add: re_greedy_mem)
    have 8: "(cm, rest) \<in> set (re_greedy (\<lambda>c. True) 1 (cm @ rest))"
      using cm by (simp add: re_greedy_mem list_all_iff)
    have 9: "(k, ph, cm) \<in> set [(k, plus @ digits, cm)]" using ph by simp
    from c(1) 1 2 3 4 5 6 7 8 9 show ?L by blast
  qed
  finally show ?thesis .
qed

lemma re_match_message_form: "re_match_message codes t \<noteq> [] \<longleftrightarrow> message_form codes t"
proof
  assume "re_match_message codes t \<noteq> []"
  then obtain k ph cm where "(k, ph, cm) \<in> set (re_match_message codes t)"
    by (cases "re_match_message codes t") auto
  then obtain c ws plus digits ws1 ws2 rest where
    h: "c \<in> set codes" "list_all2 ci_match c k" "1 \<le> length ws" "list_all py_isspace ws"
       "plus = [43] \<or> plus = []" "1 \<le> length digits" "list_all ascii_digit digits"
       "list_all py_isspace ws1" "list_all py_isspace ws2" "1 \<le> length cm"
       "t = k @ ws @ plus @ digits @ ws1 @ [124] @ ws2 @ cm @ rest"
    unfolding re_match_message_mem by blast
  have p: "phone_token (plus @ digits)"
    unfolding phone_token_def using h(5,6,7) by (intro exI[of _ digits]) auto
  have "ws \<noteq> []" "cm @ rest \<noteq> []" using h(3,10) by auto
  moreover have "t = k @ ws @ (plus @ digits) @ ws1 @ [124] @ ws2 @ (cm @ rest)"
    using h(11) by simp
  ultimately show "message_form codes t"
    unfolding message_form_def using h(1,2,4,8,9) p by blast
next
  assume "message_form codes t"
  then obtain c k ws p ws1 ws2 cm where
    h: "c \<in> set codes" "list_all2 ci_match c k" "ws \<noteq> []" "list_all py_isspace ws"
       "phone_token p" "list_all py_isspace ws1" "list_all py_isspace ws2" "cm \<noteq> []"
       "t = k @ ws @ p @ ws1 @ [124] @ ws2 @ cm"
    unfolding message_form_def by blast
  from h(5) obtain plus ds where
    p: "p = plus @ ds" "plus = [43] \<or> plus = []" "ds \<noteq> []" "list_all ascii_digit ds"
    unfolding phone_token_def by (metis append_Cons append_Nil)
  have "1 \<le> length ws" "1 \<le> length ds" "1 \<le> length cm"
    using h(3,8) p(3) by (simp_all add: Suc_le_eq)
  moreover have "t = k @ ws @ plus @ ds @ ws1 @ [124] @ ws2 @ cm @ []"
    using h(9) p(1) by simp
  ultimately have "(k, p, cm) \<in> set (re_match_message codes t)"
    unfolding re_match_message_mem using h(1,2,4,6,7) p(1,2,4) by blast
  then show "re_match_message codes t \<noteq> []" by auto
qed

lemma py_strip_subset: "set (py_strip s) \<subseteq> set s"
  unfolding py_strip_def by (auto dest!: set_dropWhileD)

lemma message_form_bar: "message_form codes t \<Longrightarrow> 124 \<in> set t"
  by (auto simp: message_form_def)

lemma message_form_code:
  "message_form codes t \<Longrightarrow> \<exists>c k r. c \<in> set codes \<and> list_all2 ci_match c k \<and> t = k @ r"
  unfolding message_form_def by blast

lemma parse_message_None:
  "fst (parse_message now text department w) = None \<longleftrightarrow>
     fst (get_all_categories now department True w) = [] \<or>
     re_match_message (map code (fst (get_all_categories now department True w))) (py_strip text) = []"
  by (auto simp: parse_message_def split: prod.splits list.splits)

text \<open>
  Claim C2. Let the category list that the registry gives for the department be
  non-empty. Then the parser accepts a text exactly when the text, trimmed of white
  space, is of the form \<^verbatim>\<open><code> <phone> | <comment>\<close>: a code of the list in any case,
  one or more white-space characters, a phone token (an optional plus sign and one or
  more digits), the separator \<^verbatim>\<open>|\<close> with optional white space on either side of it,
  and a non-empty comment that runs to the end of the input, line breaks included. A
  text without the separator and a text that does not begin with a code of the list are
  rejected, with no result at all.
\<close>

theorem parse_message_accepts:
  assumes "fst (get_all_categories now department True w) = cats"
    and "cats \<noteq> []"
  shows "(fst (parse_message now text department w) \<noteq> None
            \<longleftrightarrow> message_form (map code cats) (py_strip text)) \<and>
         (124 \<notin> set text \<longrightarrow> fst (parse_message now text department w) = None) \<and>
         (\<not> (\<exists>c k r. c \<in> set (map code cats) \<and> list_all2 ci_match c k \<and> py_strip text = k @ r)
            \<longrightarrow> fst (parse_message now text department w) = None)"
proof -
  have iff: "fst (parse_message now text department w) \<noteq> None
            \<longleftrightarrow> message_form (map code cats) (py_strip text)"
    using assms(1,2) by (simp add: parse_message_None re_match_message_form)
  have "124 \<notin> set text \<Longrightarrow> \<not> message_form (map code cats) (py_strip text)"
    using message_form_bar py_strip_subset by blast
  moreover have "\<not> (\<exists>c k r. c \<in> set (map code cats) \<and> list_all2 ci_match c k \<and> py_strip text = k @ r)
      \<Longrightarrow> \<not> message_form (map code cats) (py_strip text)"
    using message_form_code by blast
  ultimately show ?thesis using iff by blast
qed

lemmas re_eval = re_match_message_def re_then_def str_def re_literal_ci_def ci_match_def ci_class_def
  ci_extra_def re_greedy_def py_isspace_def ascii_digit_def re_optional_def re_literal_def
  List.bind_def upt_rec

lemmas phone_eval = normalize_phone_def clean_phone_def py_isdecimal_def decimal_zeros_def
  startswith_def lstrip_chars_def

lemma world0_categories: "get_all_categories now support True world0 =
    ([cl1], world0\<lparr>categories_cache := [support \<mapsto> [cl1]],
                   categories_cache_time := [support \<mapsto> now]\<rparr>)"
  by (simp add: get_all_categories_def support_prefix select_categories_def world0_def db0_def)

text \<open>
  The scenario of the specification: with the category CL1, the message
  \<^verbatim>\<open>cl1 0631234567 | client called\<close> parses to CL1, +380631234567 and the comment.
\<close>

lemma parse_message_scenario:
  "fst (parse_message now (str ''cl1 0631234567 | client called'') support world0) =
     Some (str ''CL1'', str ''+380631234567'', str ''client called'')"
proof -
  have s: "py_strip (str ''cl1 0631234567 | client called'') = str ''cl1 0631234567 | client called''"
    by (simp add: py_strip_def str_def py_isspace_def)
  have m: "hd (re_match_message [str ''CL1''] (str ''cl1 0631234567 | client called'')) =
      (str ''cl1'', str ''0631234567'', str ''client called'') \<and>
      re_match_message [str ''CL1''] (str ''cl1 0631234567 | client called'') \<noteq> []"
    by (simp add: re_eval)
  have u: "py_upper (str ''cl1'') = str ''CL1''"
    by (simp add: py_upper_def upper_cp_def str_def)
  have n: "normalize_phone (str ''0631234567'') = str ''+380631234567''"
    by (simp add: phone_eval str_def)
  have c: "py_strip (str ''client called'') = str ''client called''"
    by (simp add: py_strip_def str_def py_isspace_def)
  from m obtain rest where
    "re_match_message [str ''CL1''] (str ''cl1 0631234567 | client called'') =
       (str ''cl1'', str ''0631234567'', str ''client called'') # rest"
    by (cases "re_match_message [str ''CL1''] (str ''cl1 0631234567 | client called'')") auto
  then show ?thesis
    by (simp add: parse_message_def world0_categories s u n c cl1_def)
qed

theorem parse_message_accepts_witness:
  "fst (get_all_categories 0 support True world0) = [cl1] \<and> [cl1] \<noteq> [] \<and>
   fst (parse_message 0 (str ''cl1 0631234567 | client called'') support world0) \<noteq> None \<and>
   message_form (map code [cl1]) (py_strip (str ''cl1 0631234567 | client called''))"
proof -
  have a: "fst (get_all_categories 0 support True world0) = [cl1]"
    by (simp add: world0_categories)
  have b: "[cl1] \<noteq> []" by simp
  have d: "fst (parse_message 0 (str ''cl1 0631234567 | client called'') support world0) \<noteq> None"
    by (simp add: parse_message_scenario)
  from parse_message_accepts[OF a b, of "str ''cl1 0631234567 | client called''"] a b d
  show ?thesis by blast
qed

text \<open>White space round the separator is optional: none at all is accepted as well.\<close>

lemma parse_message_no_space:
  "fst (parse_message 0 (str ''CL1 123|x'') support world0) =
     Some (str ''CL1'', str ''+380123'', str ''x'')"
proof -
  have s: "py_strip (str ''CL1 123|x'') = str ''CL1 123|x''"
    by (simp add: py_strip_def str_def py_isspace_def)
  have m: "hd (re_match_message [str ''CL1''] (str ''CL1 123|x'')) =
      (str ''CL1'', str ''123'', str ''x'') \<and>
      re_match_message [str ''CL1''] (str ''CL1 123|x'') \<noteq> []"
    by (simp add: re_eval)
  have n: "normalize_phone (str ''123'') = str ''+380123''"
    by (simp add: phone_eval str_def)
  have c: "py_strip (str ''x'') = str ''x''"
    by (simp add: py_strip_def str_def py_isspace_def)
  from m obtain rest where
    "re_match_message [str ''CL1''] (str ''CL1 123|x'') = (str ''CL1'', str ''123'', str ''x'') # rest"
    by (cases "re_match_message [str ''CL1''] (str ''CL1 123|x'')") auto
  then show ?thesis
    by (simp add: parse_message_def world0_categories s upper_CL1 n c cl1_def)
qed

subsection \<open>CRM workflow\<close>

lemma reply_text_simps [simp]:
  "db (reply_text r w) = db w" "outbox (reply_text r w) = outbox w @ [r]"
  "crm_calls (reply_text r w) = crm_calls w"
  "categories_cache (reply_text r w) = categories_cache w"
  "categories_cache_time (reply_text r w) = categories_cache_time w"
  by (simp_all add: reply_text_def)

text \<open>
  Claim C1. Whenever \<open>save_record\<close> is reached with a candidate record and the lookup of
  the CRM contact by the phone finds no contact, the workflow ends there: the store is
  as it was, so no record is written to the table of any department, no request that
  changes the CRM is made, and the one message sent tells the user that the client is
  not in the CRM.
\<close>

theorem save_record_contact_not_found:
  assumes "find_contact_by_phone e ph = None"
  shows "save_record e upd c ph cm category_name employee_name responsible_id department w
           = (Returns (), reply_text ClientNotInCrm w) \<and>
         db (snd (save_record e upd c ph cm category_name employee_name responsible_id department w))
           = db w \<and>
         crm_calls (snd (save_record e upd c ph cm category_name employee_name responsible_id department w))
           = crm_calls w \<and>
         outbox (snd (save_record e upd c ph cm category_name employee_name responsible_id department w))
           = outbox w @ [ClientNotInCrm]"
  using assms by (simp add: save_record_def)

lemma normalize_0631234567: "normalize_phone (str ''+380631234567'') = str ''+380631234567''"
  by (simp add: phone_eval str_def)

theorem save_record_contact_not_found_witness:
  "find_contact_by_phone env_no_contact (str ''+380631234567'') = None \<and>
   records (db (snd (save_record env_no_contact (message (str ''CL1 +380631234567 | x''))
       (str ''CL1'') (str ''+380631234567'') (str ''x'') (str ''Complaint'') (str ''Olena'') 596
       support world0))) = records (db world0) \<and>
   outbox (snd (save_record env_no_contact (message (str ''CL1 +380631234567 | x''))
       (str ''CL1'') (str ''+380631234567'') (str ''x'') (str ''Complaint'') (str ''Olena'') 596
       support world0)) = [ClientNotInCrm]"
proof -
  have a: "find_contact_by_phone env_no_contact (str ''+380631234567'') = None"
    by (simp add: find_contact_by_phone_def env_no_contact_def env0_def)
  from save_record_contact_not_found[OF a, of "message (str ''CL1 +380631234567 | x'')"
      "str ''CL1''" "str ''x''" "str ''Complaint''" "str ''Olena''" 596 support world0] a
  show ?thesis by (simp add: world0_def)
qed

subsection \<open>Duplicate confirmation\<close>

text \<open>
  A user who is awaiting the confirmation gets no parsing: the message goes to the
  interpretation as a yes or a no, and the registry and its cache are not consulted.
\<close>

lemma handle_message_awaiting:
  assumes "get_department_by_chat_id (chat_id upd) = Some d"
    and "awaiting_duplicate_confirmation ud = Some True"
  shows "handle_message e upd ud w = handle_duplicate_confirmation e upd ud w"
  using assms by (simp add: handle_message_def)

text \<open>Any reply that is not a yes discards the pending record and notifies the cancellation.\<close>

lemma handle_duplicate_confirmation_no:
  assumes "py_lower (py_strip (message_text upd)) \<notin> set affirmative"
  shows "handle_duplicate_confirmation e upd ud w =
           (Returns (), user_data_clear, reply_text OperationCancelled w)"
  using assms by (simp add: handle_duplicate_confirmation_def Let_def)

text \<open>
  A yes runs the CRM workflow with the fields of the pending record; when the workflow
  returns, the whole of \<open>user_data\<close> is cleared.
\<close>

lemma handle_duplicate_confirmation_yes:
  assumes "py_lower (py_strip (message_text upd)) \<in> set affirmative"
    and "pending_record ud = Some p"
    and "save_record e upd (p_code p) (p_phone p) (p_comment p) (p_category_name p)
           (p_employee_name p) (p_responsible_id p) (p_department p) w = (Returns (), w1)"
  shows "handle_duplicate_confirmation e upd ud w = (Returns (), user_data_clear, w1)"
  using assms by (simp add: handle_duplicate_confirmation_def Let_def)

text \<open>
  When the workflow raises, which it does when a request of \<open>create_task\<close> raises, the
  flag has been reset, and the rest of \<open>user_data\<close>, the pending record included, stays.
\<close>

lemma handle_duplicate_confirmation_raises:
  assumes "py_lower (py_strip (message_text upd)) \<in> set affirmative"
    and "pending_record ud = Some p"
    and "save_record e upd (p_code p) (p_phone p) (p_comment p) (p_category_name p)
           (p_employee_name p) (p_responsible_id p) (p_department p) w = (Raises, w1)"
  shows "handle_duplicate_confirmation e upd ud w =
           (Raises, ud\<lparr>awaiting_duplicate_confirmation := Some False\<rparr>, w1)"
  using assms by (simp add: handle_duplicate_confirmation_def Let_def)

lemma handle_duplicate_confirmation_flag:
  "awaiting_duplicate_confirmation (fst (snd (handle_duplicate_confirmation e upd ud w))) \<noteq> Some True"
  by (simp add: handle_duplicate_confirmation_def Let_def user_data_clear_def
      split: option.splits prod.splits outcome.splits)

lemma find_client: "find_contact_by_phone env_task_raises (str ''+380631234567'') = Some client"
  by (simp add: find_contact_by_phone_def env_task_raises_def env0_def client_def
      normalize_0631234567)
     (simp add: clean_phone_def str_def py_isdecimal_def decimal_zeros_def)

lemma task_raises: "create_task env_task_raises cid category_name cm responsible_id w = (Raises, w)"
  by (simp add: create_task_def env_task_raises_def env0_def)

text \<open>
  Claim C4 at a failing input. The user is awaiting the confirmation of the pending
  record and presses the button \<^emph>\<open>Tak\<close>; the client is in the CRM, and the request that
  creates the task raises. The message is taken as a yes and the flag is reset, but the
  exception leaves the handler before \<^verbatim>\<open>user_data.clear()\<close>: the pending record is
  still there afterwards.
\<close>

theorem handle_message_confirmation_task_raises:
  "handle_message env_task_raises (message [1058, 1072, 1082]) awaiting0 world0 =
     (Raises, awaiting0\<lparr>awaiting_duplicate_confirmation := Some False\<rparr>, world0) \<and>
   pending_record (fst (snd (handle_message env_task_raises (message [1058, 1072, 1082])
     awaiting0 world0))) = Some pending0"
proof -
  have d: "get_department_by_chat_id (chat_id (message [1058, 1072, 1082])) = Some (str ''support'')"
    by (simp add: get_department_by_chat_id_def message_def)
  have a: "awaiting_duplicate_confirmation awaiting0 = Some True"
    and p: "pending_record awaiting0 = Some pending0"
    by (simp_all add: awaiting0_def)
  have y: "py_lower (py_strip (message_text (message [1058, 1072, 1082]))) \<in> set affirmative"
    by (simp add: message_def py_strip_def py_isspace_def py_lower_def lower_cp_def affirmative_def)
  have s: "save_record env_task_raises (message [1058, 1072, 1082]) (p_code pending0)
      (p_phone pending0) (p_comment pending0) (p_category_name pending0) (p_employee_name pending0)
      (p_responsible_id pending0) (p_department pending0) world0 = (Raises, world0)"
    by (simp add: save_record_def pending0_def find_client task_raises)
  have "handle_message env_task_raises (message [1058, 1072, 1082]) awaiting0 world0 =
     (Raises, awaiting0\<lparr>awaiting_duplicate_confirmation := Some False\<rparr>, world0)"
    unfolding handle_message_awaiting[OF d a]
    by (rule handle_duplicate_confirmation_raises[OF y p s])
  then show ?thesis by (simp add: awaiting0_def)
qed

subsection \<open>Employee onboarding\<close>

lemma message_fields:
  "message_text (message t) = t" "bot_command (message t) = None"
  "message_text (command_message t n) = t" "bot_command (command_message t n) = Some n"
  by (simp_all add: message_def command_message_def)

text \<open>
  A number moves the conversation on: the chat identity 123456 is kept in \<open>user_data\<close>
  and the Bitrix identity is asked for.
\<close>

lemma add_employee_tg_id_number:
  "add_employee_handler env0 ADD_EMPLOYEE_TG_ID (message (str '' 123456 '')) user_data_clear world0 =
     Some (Returns ADD_EMPLOYEE_BITRIX_ID, user_data_clear\<lparr>new_employee_tg_id := Some 123456\<rparr>,
           world0\<lparr>outbox := [AskBitrixId]\<rparr>)"
proof -
  have s: "py_strip (str '' 123456 '') = str ''123456''" "py_strip (str ''123456'') = str ''123456''"
    by (simp_all add: py_strip_def str_def py_isspace_def)
  have d: "find (\<lambda>z. z \<le> c \<and> c \<le> z + 9) decimal_zeros = Some 48" if "ascii_digit c" for c
    using that by (simp add: decimal_zeros_def ascii_digit_def)
  have i: "py_int (str ''123456'') = Some 123456"
    by (simp add: py_int_def s) (simp add: str_def int_unsigned_def digit_value_def d ascii_digit_def
        py_isdecimal_def decimal_zeros_def)
  show ?thesis
    by (simp add: add_employee_handler_def plain_text_def message_fields add_employee_tg_id_def s i
        reply_text_def world0_def)
qed





text \<open>A \<^verbatim>\<open>/cancel\<close> that names another bot is not taken either.\<close>

lemma cancel_other_bot:
  "add_employee_handler env0 ADD_EMPLOYEE_TG_ID (command_message (str ''/cancel@other_bot'') 17)
     user_data_clear world0 = None"
proof -
  have "\<not> is_command (bot_username env0) (str ''cancel'')
          (command_message (str ''/cancel@other_bot'') 17)"
    by (simp add: is_command_def message_fields env0_def str_def py_lower_def lower_cp_def)
  then show ?thesis
    by (simp add: add_employee_handler_def plain_text_def message_fields)
qed

subsection \<open>Aggregation engine\<close>

lemma counter_add_keys: "fst ` set (counter_add x c) = insert x (fst ` set c)"
  by (induction x c rule: counter_add.induct) auto

lemma fold_counter_add_keys: "fst ` set (fold counter_add xs c) = set xs \<union> fst ` set c"
  by (induction xs arbitrary: c) (auto simp: counter_add_keys)

lemma most_common_Counter_keys: "fst ` set (most_common (Counter xs)) = set xs"
  by (simp add: most_common_def Counter_def fold_counter_add_keys)

text \<open>Every fetched row is counted in the total.\<close>

lemma handle_info_summary_total: "total_count (handle_info_summary rows) = length rows"
  by (simp add: handle_info_summary_def)

text \<open>
  The names of the breakdown by employee are those of the rows whose employee resolves:
  a row of a deleted employee adds nothing to it.
\<close>

lemma handle_info_summary_by_emp:
  "fst ` set (by_emp (handle_info_summary rows)) =
     {n. n \<noteq> [] \<and> (\<exists>r \<in> set rows. j_employee_name r = Some n)}"
proof -
  have "fst ` set (by_emp (handle_info_summary rows)) =
      (\<lambda>r. the (j_employee_name r)) `
        {r \<in> set rows. j_employee_name r \<noteq> None \<and> j_employee_name r \<noteq> Some []}"
    by (simp add: handle_info_summary_def most_common_Counter_keys)
  also have "\<dots> = {n. n \<noteq> [] \<and> (\<exists>r \<in> set rows. j_employee_name r = Some n)}"
    by force
  finally show ?thesis .
qed

text \<open>
  The keys of the breakdown by category are those of all rows with a category code,
  the rows whose category does not resolve included: the test is on the stored code, not
  on the name that the join found.
\<close>

lemma handle_info_summary_by_cat:
  "fst ` set (by_cat (handle_info_summary rows)) =
     {(j_category_code r, j_category_name r) | r. r \<in> set rows \<and> j_category_code r \<noteq> []}"
  by (auto simp: handle_info_summary_def most_common_Counter_keys image_iff)

text \<open>
  Claim C6 at a failing input. The one record of the phone refers to an employee and to
  a category that are no longer in their tables. The record is counted in the total and
  left out of the breakdown by employee, as the claim says; but it is counted in the
  breakdown by category, under its stored code and the name \<open>None\<close>.
\<close>

theorem handle_info_summary_deleted_category:
  "get_records_by_phone (seconds 60) (str ''+380631234567'') 7 support world_orphan =
     [\<lparr>j_timestamp = 0, j_employee_name = None, j_category_name = None,
       j_category_code = str ''OLD'', j_phone = str ''+380631234567'', j_comment = str ''x''\<rparr>] \<and>
   total_count (handle_info_summary
     (get_records_by_phone (seconds 60) (str ''+380631234567'') 7 support world_orphan)) = 1 \<and>
   by_emp (handle_info_summary
     (get_records_by_phone (seconds 60) (str ''+380631234567'') 7 support world_orphan)) = [] \<and>
   by_cat (handle_info_summary
     (get_records_by_phone (seconds 60) (str ''+380631234567'') 7 support world_orphan))
     = [((str ''OLD'', None), 1)]"
proof -
  have "str ''OLD'' \<noteq> str ''CL1''" by (simp add: str_def)
  then have rows: "get_records_by_phone (seconds 60) (str ''+380631234567'') 7 support world_orphan =
     [\<lparr>j_timestamp = 0, j_employee_name = None, j_category_name = None,
       j_category_code = str ''OLD'', j_phone = str ''+380631234567'', j_comment = str ''x''\<rparr>]"
    by (simp add: get_records_by_phone_def support_prefix world_orphan_def world0_def db0_def
        orphan_def join_row_def cl1_def seconds_def make_interval_days_def)
  have "str ''OLD'' \<noteq> []" by (simp add: str_def)
  then show ?thesis
    unfolding rows by (simp add: handle_info_summary_def Counter_def most_common_def)
qed

subsection \<open>The scenario of a repeated submission\<close>

lemma strip_submission: "py_strip (str ''CL1 +380631234567 | x'') = str ''CL1 +380631234567 | x''"
  by (simp add: py_strip_def str_def py_isspace_def)

lemma match_submission:
  "\<exists>rest. re_match_message [str ''CL1''] (str ''CL1 +380631234567 | x'') =
     (str ''CL1'', str ''+380631234567'', str ''x'') # rest"
proof -
  have "hd (re_match_message [str ''CL1''] (str ''CL1 +380631234567 | x'')) =
      (str ''CL1'', str ''+380631234567'', str ''x'') \<and>
      re_match_message [str ''CL1''] (str ''CL1 +380631234567 | x'') \<noteq> []"
    by (simp add: re_eval)
  then show ?thesis
    by (cases "re_match_message [str ''CL1''] (str ''CL1 +380631234567 | x'')") auto
qed

lemma strip_x: "py_strip (str ''x'') = str ''x''"
  by (simp add: py_strip_def str_def py_isspace_def)

lemma parse_submission:
  assumes "get_all_categories now support True w = ([cl1], w')"
  shows "parse_message now (str ''CL1 +380631234567 | x'') support w =
           (Some (str ''CL1'', str ''+380631234567'', str ''x''), w')"
  using match_submission assms
  by (auto simp: parse_message_def strip_submission upper_CL1 normalize_0631234567 strip_x cl1_def)

lemma submission_fields:
  "chat_id submission = SUPPORT_CHAT_ID" "from_user_id submission = 7"
  "from_user_full_name submission = str ''Olena''"
  "message_text submission = str ''CL1 +380631234567 | x''"
  by (simp_all add: submission_def message_def)

lemma support_chat: "get_department_by_chat_id SUPPORT_CHAT_ID = support"
  by (simp add: get_department_by_chat_id_def support_def)

lemma find_client0: "find_contact_by_phone (env0\<lparr>clock := t\<rparr>) (str ''+380631234567'') = Some client"
  by (simp add: find_contact_by_phone_def env0_def client_def normalize_0631234567)
     (simp add: clean_phone_def str_def py_isdecimal_def decimal_zeros_def)

lemma create_task0:
  "create_task (env0\<lparr>clock := t\<rparr>) cid category_name cm responsible_id w =
     (Returns (), w\<lparr>crm_calls := crm_calls w @
        [TaskAdd cid category_name cm responsible_id,
         TimelineComment cid category_name cm responsible_id, TaskComplete 1]\<rparr>)"
  by (simp add: create_task_def env0_def Let_def)

lemma client_name: "py_strip (first_name client @ str '' '' @ last_name client) = str ''Ivan Franko''"
  by (simp add: client_def py_strip_def str_def py_isspace_def)

lemma client_id: "contact_id client = str ''15''"
  by (simp add: client_def)

text \<open>
  The two ways of a message that parses, for a user who is not awaiting a confirmation
  and is not in the employee table: without a duplicate the workflow runs at once; with
  a duplicate nothing is stored, the candidate record is kept as pending, the flag is
  set and the user is asked.
\<close>

lemma handle_message_fresh:
  assumes "get_department_by_chat_id (chat_id upd) = Some d"
    and "awaiting_duplicate_confirmation ud \<noteq> Some True"
    and "parse_message (clock e) (message_text upd) (Some d) w = (Some (c, ph, cm), w1)"
    and "get_category_by_code c (Some d) w1 = Some cat"
    and "get_employee_by_telegram_id (from_user_id upd) (Some d) w1 = None"
    and "\<not> check_duplicate_record (clock e) (from_user_id upd) c ph (Some d) 5 w1"
    and "save_record e upd c ph cm (cat_name cat) (from_user_full_name upd) RESPONSIBLE_ID
           (Some d) w1 = (r, w2)"
  shows "handle_message e upd ud w = (r, ud, w2)"
  using assms by (simp add: handle_message_def Let_def)

lemma handle_message_duplicate:
  assumes "get_department_by_chat_id (chat_id upd) = Some d"
    and "awaiting_duplicate_confirmation ud \<noteq> Some True"
    and "parse_message (clock e) (message_text upd) (Some d) w = (Some (c, ph, cm), w1)"
    and "get_category_by_code c (Some d) w1 = Some cat"
    and "get_employee_by_telegram_id (from_user_id upd) (Some d) w1 = None"
    and "check_duplicate_record (clock e) (from_user_id upd) c ph (Some d) 5 w1"
  shows "handle_message e upd ud w =
           (Returns (),
            ud\<lparr>awaiting_duplicate_confirmation := Some True,
               pending_record := Some
                 \<lparr>p_code = c, p_phone = ph, p_comment = cm, p_category_name = cat_name cat,
                  p_employee_name = from_user_full_name upd, p_responsible_id = RESPONSIBLE_ID,
                  p_department = Some d\<rparr>\<rparr>,
            reply_text (DuplicatePrompt c) w1)"
  using assms by (simp add: handle_message_def Let_def)

lemma cached_world: "world0\<lparr>categories_cache := [support \<mapsto> [cl1]],
    categories_cache_time := [support \<mapsto> 0]\<rparr> =
  \<lparr>db = db0, categories_cache = [support \<mapsto> [cl1]], categories_cache_time = [support \<mapsto> 0],
   outbox = [], crm_calls = []\<rparr>"
  by (simp add: world0_def)

text \<open>The first submission finds its client, creates the task and is stored.\<close>

lemma first_submission:
  "handle_message env0 submission user_data_clear world0 = (Returns (), user_data_clear, world1)"
proof -
  let ?w = "\<lparr>db = db0, categories_cache = [support \<mapsto> [cl1]],
     categories_cache_time = [support \<mapsto> 0], outbox = [], crm_calls = []\<rparr>"
  have e: "env0 = env0\<lparr>clock := 0\<rparr>" by (simp add: env0_def)
  have c: "clock env0 = 0" "store_ok env0" by (simp_all add: env0_def)
  have d: "get_department_by_chat_id (chat_id submission) = Some (str ''support'')"
    by (simp add: submission_fields get_department_by_chat_id_def)
  have a: "awaiting_duplicate_confirmation user_data_clear \<noteq> Some True"
    by (simp add: user_data_clear_def)
  have p: "parse_message (clock env0) (message_text submission) (Some (str ''support'')) world0 =
      (Some (str ''CL1'', str ''+380631234567'', str ''x''), ?w)"
    unfolding c submission_fields support_def[symmetric] cached_world[symmetric]
    by (rule parse_submission) (rule world0_categories)
  have g: "get_category_by_code (str ''CL1'') (Some (str ''support'')) ?w = Some cl1"
    by (simp add: get_category_by_code_def support_prefix[unfolded support_def] db0_def upper_CL1
        cl1_def)
  have m: "get_employee_by_telegram_id (from_user_id submission) (Some (str ''support'')) ?w = None"
    by (simp add: get_employee_by_telegram_id_def support_prefix[unfolded support_def] db0_def)
  have k: "\<not> check_duplicate_record (clock env0) (from_user_id submission) (str ''CL1'')
      (str ''+380631234567'') (Some (str ''support'')) 5 ?w"
    by (simp add: check_duplicate_record_def support_prefix[unfolded support_def] db0_def)
  have s: "save_record env0 submission (str ''CL1'') (str ''+380631234567'') (str ''x'')
      (cat_name cl1) (from_user_full_name submission) RESPONSIBLE_ID (Some (str ''support'')) ?w
      = (Returns (), world1)"
    apply (subst e)
    apply (simp add: save_record_def find_client0 create_task0 client_name client_id)
    apply (simp add: add_record_def support_prefix[unfolded support_def] c submission_fields
        next_id_def upper_CL1 world1_def db0_def record1_def reply_text_def client_name client_id
        cl1_def RESPONSIBLE_ID_def support_def)
    done
  show ?thesis by (rule handle_message_fresh[OF d a p g m k s])
qed

text \<open>
  The same submission one minute later is a duplicate: nothing is stored, the user is
  asked, and the conversation awaits the confirmation of the pending record. The cache
  entry, sixty seconds old by then, is renewed on the way.
\<close>

lemma second_submission:
  "handle_message env1 submission user_data_clear world1 =
     (Returns (), awaiting0, world2)"
proof -
  let ?w = "world1\<lparr>categories_cache_time := [support \<mapsto> seconds 60]\<rparr>"
  have c: "clock env1 = seconds 60" by (simp add: env1_def)
  have d: "get_department_by_chat_id (chat_id submission) = Some (str ''support'')"
    by (simp add: submission_fields get_department_by_chat_id_def)
  have a: "awaiting_duplicate_confirmation user_data_clear \<noteq> Some True"
    by (simp add: user_data_clear_def)
  have h: "get_all_categories (seconds 60) support True world1 = ([cl1], ?w)"
    by (simp add: get_all_categories_def support_prefix world1_def seconds_def
        select_categories_def db0_def)
  have p: "parse_message (clock env1) (message_text submission) (Some (str ''support'')) world1 =
      (Some (str ''CL1'', str ''+380631234567'', str ''x''), ?w)"
    unfolding c submission_fields support_def[symmetric]
    by (rule parse_submission) (rule h)
  have g: "get_category_by_code (str ''CL1'') (Some (str ''support'')) ?w = Some cl1"
    by (simp add: get_category_by_code_def support_prefix[unfolded support_def] world1_def db0_def
        upper_CL1 cl1_def)
  have m: "get_employee_by_telegram_id (from_user_id submission) (Some (str ''support'')) ?w = None"
    by (simp add: get_employee_by_telegram_id_def support_prefix[unfolded support_def] world1_def
        db0_def)
  have k: "check_duplicate_record (clock env1) (from_user_id submission) (str ''CL1'')
      (str ''+380631234567'') (Some (str ''support'')) 5 ?w"
    by (simp add: check_duplicate_record_def support_prefix[unfolded support_def] world1_def db0_def
        c submission_fields duplicate_of_def record1_def upper_CL1 make_interval_mins_def seconds_def)
  have "handle_message env1 submission user_data_clear world1 =
     (Returns (),
      user_data_clear\<lparr>awaiting_duplicate_confirmation := Some True,
        pending_record := Some
          \<lparr>p_code = str ''CL1'', p_phone = str ''+380631234567'', p_comment = str ''x'',
           p_category_name = cat_name cl1, p_employee_name = from_user_full_name submission,
           p_responsible_id = RESPONSIBLE_ID, p_department = Some (str ''support'')\<rparr>\<rparr>,
      reply_text (DuplicatePrompt (str ''CL1'')) ?w)"
    by (rule handle_message_duplicate[OF d a p g m k])
  then show ?thesis
    by (simp add: awaiting0_def pending0_def cl1_def submission_fields RESPONSIBLE_ID_def support_def
        world2_def)
qed

text \<open>
  The reply \<^emph>\<open>ni\<close> (U+043D U+0456) cancels: no record is added, and \<open>user_data\<close> is
  cleared.
\<close>

lemma reply_no:
  "handle_message env1 (message [1085, 1110]) awaiting0 world2 =
     (Returns (), user_data_clear, reply_text OperationCancelled world2)"
proof -
  have d: "get_department_by_chat_id (chat_id (message [1085, 1110])) = Some (str ''support'')"
    by (simp add: message_def get_department_by_chat_id_def)
  have a: "awaiting_duplicate_confirmation awaiting0 = Some True" by (simp add: awaiting0_def)
  have n: "py_lower (py_strip (message_text (message [1085, 1110]))) \<notin> set affirmative"
    by (simp add: message_def py_strip_def py_isspace_def py_lower_def lower_cp_def affirmative_def
        str_def)
  show ?thesis
    unfolding handle_message_awaiting[OF d a] by (rule handle_duplicate_confirmation_no[OF n])
qed

text \<open>
  The reply \<^emph>\<open>tak\<close> runs the workflow with the pending record: exactly one more record
  is stored, and \<open>user_data\<close> is cleared.
\<close>

lemma reply_yes:
  "fst (handle_message env1 (message [1090, 1072, 1082]) awaiting0 world2) = Returns () \<and>
   fst (snd (handle_message env1 (message [1090, 1072, 1082]) awaiting0 world2)) = user_data_clear \<and>
   records (db (snd (snd (handle_message env1 (message [1090, 1072, 1082]) awaiting0 world2))))
       (str ''support'') =
     [record1, record1\<lparr>rec_id := 2, timestamp := seconds 60\<rparr>]"
proof -
  let ?u = "message [1090, 1072, 1082]"
  let ?w = "world2"
  have d: "get_department_by_chat_id (chat_id ?u) = Some (str ''support'')"
    by (simp add: message_def get_department_by_chat_id_def)
  have a: "awaiting_duplicate_confirmation awaiting0 = Some True"
    and p: "pending_record awaiting0 = Some pending0"
    by (simp_all add: awaiting0_def)
  have y: "py_lower (py_strip (message_text ?u)) \<in> set affirmative"
    by (simp add: message_def py_strip_def py_isspace_def py_lower_def lower_cp_def affirmative_def)
  obtain w2 where s: "save_record env1 ?u (p_code pending0) (p_phone pending0) (p_comment pending0)
      (p_category_name pending0) (p_employee_name pending0) (p_responsible_id pending0)
      (p_department pending0) ?w = (Returns (), w2)"
    and r: "records (db w2) (str ''support'') = [record1, record1\<lparr>rec_id := 2, timestamp := seconds 60\<rparr>]"
    unfolding env1_def
    apply (simp add: save_record_def pending0_def find_client0 create_task0 client_name client_id)
    apply (simp add: add_record_def support_prefix env0_def message_def next_id_def upper_CL1
        world2_def world1_def db0_def record1_def)
    done
  have "handle_message env1 ?u awaiting0 ?w = (Returns (), user_data_clear, w2)"
    unfolding handle_message_awaiting[OF d a]
    by (rule handle_duplicate_confirmation_yes[OF y p s])
  then show ?thesis using r by simp
qed

end
